theory Spec2Isabelle
  imports Complex_Main "HOL-Library.Sublist" "HOL-Library.Log_Nat"
begin

section \<open>Data model\<close>

text \<open>
  The three Sequelize models of \<^verbatim>\<open>backend/src/models\<close> and the interfaces they implement.
  A table is the list of its rows. Columns are named \<open>Model_column\<close> for \<open>Lote\<close> and
  \<open>Corral\<close>; the columns of a pig keep the names of \<^verbatim>\<open>ICerdoBase\<close>, and the row type
  \<open>Cerdo\<close> extends the creation payload by the primary key, as \<^verbatim>\<open>ICerdo extends ICerdoBase\<close>
  does. Weights are JavaScript numbers, kept in \<^verbatim>\<open>FLOAT\<close> columns (doubles in the store
  that \<^verbatim>\<open>config/database.ts\<close> configures); counters are \<^verbatim>\<open>INTEGER\<close> columns. A \<^verbatim>\<open>Date\<close>
  is carried as the text \<^verbatim>\<open>toISOString()\<close> gives for it. Columns that no operation
  below reads or writes (initial lot weights, week numbers, the
  \<^verbatim>\<open>createdAt\<close>/\<^verbatim>\<open>updatedAt\<close> stamps) are left out.
\<close>

datatype EstadoCerdo = ACTIVO | VENDIDO | MUERTO | ENFERMO

datatype EstadoLote = LOTE_ACTIVO | FINALIZADO

datatype Sitio = LECHON | ENGORDE

datatype TipoCorral = CORRAL_LECHON | CORRAL_ENGORDE | ENFERMERIA

subsection \<open>Numbers\<close>

text \<open>
  A JavaScript number is an IEEE 754 double: a finite value (a rational \<open>m * 2^e\<close> with
  \<open>|m| < 2^53\<close> and \<open>-1074 \<le> e\<close>, below \<open>2^1024\<close> in magnitude), negative zero, an
  infinity, or \<^verbatim>\<open>NaN\<close>. \<open>Fin 0\<close> is the positive zero. An arithmetic operation computes
  its result over the rationals and rounds it to the nearest double, a tie going to the
  even significand; \<open>redondear\<close> is that rounding, and it is also how a decimal literal
  of the source (\<^verbatim>\<open>0.3\<close>) is read.
\<close>

datatype number = Fin rat | NegZero | Infinity | NegInfinity | NaN

function pot :: "rat \<Rightarrow> int \<Rightarrow> rat" where
  "pot x n = (if n \<le> 0 then 1
              else if even n then pot (x * x) (n div 2) else x * pot (x * x) (n div 2))"
  by auto
termination by (relation "measure (\<lambda>(x, n). nat n)") auto

declare pot.simps [simp del]

definition pow2 :: "int \<Rightarrow> rat" where
  "pow2 e = (if 0 \<le> e then pot 2 e else 1 / pot 2 (- e))"

text \<open>The exponent of a positive rational: the \<open>e\<close> with \<open>2^e \<le> a < 2^(e + 1)\<close>.\<close>

definition log2_floor :: "rat \<Rightarrow> int" where
  "log2_floor a =
     (let (p, q) = quotient_of a; e = bitlen p - bitlen q
      in if pow2 e \<le> a then e else e - 1)"

definition redondeo_par :: "rat \<Rightarrow> int" where
  "redondeo_par y =
     (let f = \<lfloor>y\<rfloor>; d = y - of_int f
      in if d < 1 / 2 then f else if 1 / 2 < d then f + 1 else if even f then f else f + 1)"

text \<open>
  Doubles with exponent \<open>e\<close> are the multiples of \<open>2^(e - 52)\<close>; below \<open>2^-1022\<close> the
  spacing stays \<open>2^-1074\<close>. A result that rounds to \<open>2^1024\<close> or more is an infinity, one
  that rounds to nothing is a zero with the sign of the exact result.
\<close>

definition redondear :: "rat \<Rightarrow> number" where
  "redondear x =
     (if x = 0 then Fin 0
      else let a = \<bar>x\<bar>;
               e = max (log2_floor a) (- 1022);
               q = pow2 (e - 52);
               r = of_int (redondeo_par (a / q)) * q
           in if pow2 1024 \<le> r then (if 0 < x then Infinity else NegInfinity)
              else if r = 0 then (if 0 < x then Fin 0 else NegZero)
              else Fin (if 0 < x then r else - r))"

definition es_cero :: "number \<Rightarrow> bool" where
  "es_cero x = (x = Fin 0 \<or> x = NegZero)"

definition es_infinito :: "number \<Rightarrow> bool" where
  "es_infinito x = (x = Infinity \<or> x = NegInfinity)"

text \<open>The sign bit.\<close>

definition negativo :: "number \<Rightarrow> bool" where
  "negativo x = (case x of Fin a \<Rightarrow> a < 0 | NegZero \<Rightarrow> True | NegInfinity \<Rightarrow> True
                 | Infinity \<Rightarrow> False | NaN \<Rightarrow> False)"

text \<open>\<^verbatim>\<open>x + y\<close>\<close>

definition suma :: "number \<Rightarrow> number \<Rightarrow> number" where
  "suma x y =
     (if x = NaN \<or> y = NaN then NaN
      else if es_infinito x \<and> es_infinito y then (if x = y then x else NaN)
      else if es_infinito x then x
      else if es_infinito y then y
      else (case (x, y) of
              (Fin a, Fin b) \<Rightarrow> redondear (a + b)
            | (Fin a, _) \<Rightarrow> Fin a
            | (_, Fin b) \<Rightarrow> Fin b
            | _ \<Rightarrow> NegZero))"

text \<open>\<^verbatim>\<open>-x\<close>\<close>

definition menos :: "number \<Rightarrow> number" where
  "menos x = (case x of Fin a \<Rightarrow> if a = 0 then NegZero else Fin (- a) | NegZero \<Rightarrow> Fin 0
              | Infinity \<Rightarrow> NegInfinity | NegInfinity \<Rightarrow> Infinity | NaN \<Rightarrow> NaN)"

text \<open>\<^verbatim>\<open>x - y\<close>, which is \<^verbatim>\<open>x + (-y)\<close> in every case.\<close>

definition resta :: "number \<Rightarrow> number \<Rightarrow> number" where
  "resta x y = suma x (menos y)"

text \<open>\<^verbatim>\<open>Math.abs(x)\<close>\<close>

definition absoluto :: "number \<Rightarrow> number" where
  "absoluto x = (case x of Fin a \<Rightarrow> Fin \<bar>a\<bar> | NegZero \<Rightarrow> Fin 0 | Infinity \<Rightarrow> Infinity
                 | NegInfinity \<Rightarrow> Infinity | NaN \<Rightarrow> NaN)"

text \<open>\<^verbatim>\<open>x / y\<close>\<close>

definition dividir :: "number \<Rightarrow> number \<Rightarrow> number" where
  "dividir x y =
     (if x = NaN \<or> y = NaN then NaN
      else if (es_cero x \<and> es_cero y) \<or> (es_infinito x \<and> es_infinito y) then NaN
      else if es_infinito x \<or> es_cero y
        then (if negativo x \<noteq> negativo y then NegInfinity else Infinity)
      else if es_cero x \<or> es_infinito y
        then (if negativo x \<noteq> negativo y then NegZero else Fin 0)
      else (case (x, y) of (Fin a, Fin b) \<Rightarrow> redondear (a / b) | _ \<Rightarrow> NaN))"

text \<open>
  Comparison. The position of a number on the extended line; \<^verbatim>\<open>NaN\<close> has none, and every
  comparison with it is false. The two zeros are equal.
\<close>

definition posicion :: "number \<Rightarrow> (int \<times> rat) option" where
  "posicion x = (case x of Fin a \<Rightarrow> Some (0, a) | NegZero \<Rightarrow> Some (0, 0)
                 | Infinity \<Rightarrow> Some (1, 0) | NegInfinity \<Rightarrow> Some (- 1, 0) | NaN \<Rightarrow> None)"

text \<open>\<^verbatim>\<open>x > y\<close>\<close>

definition mayor :: "number \<Rightarrow> number \<Rightarrow> bool" where
  "mayor x y =
     (case (posicion x, posicion y) of
        (Some (i, a), Some (j, b)) \<Rightarrow> j < i \<or> (j = i \<and> b < a)
      | _ \<Rightarrow> False)"

text \<open>\<^verbatim>\<open>x <= y\<close>\<close>

definition menor_igual :: "number \<Rightarrow> number \<Rightarrow> bool" where
  "menor_igual x y =
     (case (posicion x, posicion y) of
        (Some (i, a), Some (j, b)) \<Rightarrow> i < j \<or> (i = j \<and> a \<le> b)
      | _ \<Rightarrow> False)"

subsection \<open>Tables\<close>

record Lote =
  Lote_id :: string
  Lote_codigo :: string
  Lote_cantidad_inicial :: int
  Lote_cantidad_actual :: int
  Lote_estado :: EstadoLote
  Lote_sitio :: Sitio

record Corral =
  Corral_id :: string
  Corral_numero :: string
  Corral_capacidad :: int
  Corral_ocupacion_actual :: int
  Corral_lote_id :: string
  Corral_tipo :: TipoCorral
  Corral_peso_promedio_actual :: number

record ICerdoBase =
  arete :: string
  lote_id :: string
  corral_id :: string
  peso_inicial :: number
  peso_actual :: number
  fecha_ingreso :: string
  semana_vida :: int
  estado :: EstadoCerdo
  ultima_fecha_pesaje :: "string option"
  observaciones :: "string option"

record Cerdo = ICerdoBase +
  Cerdo_id :: string

record DB =
  lotes :: "Lote list"
  corrales :: "Corral list"
  cerdos :: "Cerdo list"

text \<open>
  What an operation takes from the runtime rather than from its arguments: the clock
  (\<^verbatim>\<open>new Date()\<close>, as ISO text), the UUID the store gives a new row, and the
  number-to-text conversion of a template literal.
\<close>

record Env =
  env_now :: string
  env_uuid :: string
  env_String :: "number \<Rightarrow> string"

subsection \<open>Errors\<close>

text \<open>
  \<^verbatim>\<open>CerdoErrorType\<close> as declared in \<^verbatim>\<open>CerdoService.ts\<close>. An \<open>error\<close> is either a
  \<^verbatim>\<open>CerdoError\<close> with its type, or a plain \<^verbatim>\<open>Error\<close> (what the \<^verbatim>\<open>catch\<close> clauses wrap
  every other failure into). Message texts are not modelled.
\<close>

datatype CerdoErrorType = NOT_FOUND | DUPLICATE_ARETE | INVALID_WEIGHT | CORRAL_FULL | INVALID_TRANSFER

datatype error = CerdoError CerdoErrorType | Error

definition isOK :: "'e + 'a \<Rightarrow> bool" where
  "isOK r = (case r of Inl _ \<Rightarrow> False | Inr _ \<Rightarrow> True)"

subsection \<open>Store access\<close>

definition Lote_findByPk :: "DB \<Rightarrow> string \<Rightarrow> Lote option" where
  "Lote_findByPk db i = find (\<lambda>l. Lote_id l = i) (lotes db)"

definition Corral_findByPk :: "DB \<Rightarrow> string \<Rightarrow> Corral option" where
  "Corral_findByPk db i = find (\<lambda>k. Corral_id k = i) (corrales db)"

definition Cerdo_findByPk :: "DB \<Rightarrow> string \<Rightarrow> Cerdo option" where
  "Cerdo_findByPk db i = find (\<lambda>c. Cerdo_id c = i) (cerdos db)"

text \<open>\<^verbatim>\<open>instance.update(values)\<close>: the row with the instance's key takes its values.\<close>

definition Cerdo_save :: "Cerdo \<Rightarrow> DB \<Rightarrow> DB" where
  "Cerdo_save c db =
     db\<lparr>cerdos := map (\<lambda>r. if Cerdo_id r = Cerdo_id c then c else r) (cerdos db)\<rparr>"


text \<open>
  \<^verbatim>\<open>increment\<close>/\<^verbatim>\<open>decrement\<close> of a counter column, relative to the stored value, on the
  rows with the given key.
\<close>

definition Corral_increment :: "string \<Rightarrow> int \<Rightarrow> DB \<Rightarrow> DB" where
  "Corral_increment i by db =
     db\<lparr>corrales := map (\<lambda>k. if Corral_id k = i
        then k\<lparr>Corral_ocupacion_actual := Corral_ocupacion_actual k + by\<rparr> else k) (corrales db)\<rparr>"

definition Corral_decrement :: "string \<Rightarrow> int \<Rightarrow> DB \<Rightarrow> DB" where
  "Corral_decrement i by db = Corral_increment i (- by) db"

definition Lote_increment :: "string \<Rightarrow> int \<Rightarrow> DB \<Rightarrow> DB" where
  "Lote_increment i by db =
     db\<lparr>lotes := map (\<lambda>l. if Lote_id l = i
        then l\<lparr>Lote_cantidad_actual := Lote_cantidad_actual l + by\<rparr> else l) (lotes db)\<rparr>"

definition Lote_decrement :: "string \<Rightarrow> int \<Rightarrow> DB \<Rightarrow> DB" where
  "Lote_decrement i by db = Lote_increment i (- by) db"

text \<open>
  \<^verbatim>\<open>Cerdo.create\<close>: the new row gets the key the store generates; a key already present
  violates the primary key and the insert fails.
\<close>

definition Cerdo_create :: "Env \<Rightarrow> ICerdoBase \<Rightarrow> DB \<Rightarrow> error + Cerdo \<times> DB" where
  "Cerdo_create env values db =
     (let cerdo = ICerdoBase.extend values (Cerdo.fields (env_uuid env))
      in if Cerdo_findByPk db (env_uuid env) \<noteq> None then Inl Error
         else Inr (cerdo, db\<lparr>cerdos := cerdos db @ [cerdo]\<rparr>))"

subsection \<open>Store calls that fail\<close>

text \<open>
  A call to the store (a query, an insert, an update, opening, committing or rolling back
  a transaction, reloading a row) can fail for reasons outside the program: a lost
  connection, a timeout. A failure plan says which call of an operation fails, if any:
  \<open>Some n\<close> is the call after \<open>n\<close> calls that went through, \<open>None\<close> is no call. A call
  that fails throws a plain \<^verbatim>\<open>Error\<close> and has no effect.
\<close>

type_synonym fallo = "nat option"

definition falla :: "fallo \<Rightarrow> bool" where
  "falla k = (k = Some 0)"

definition despues :: "fallo \<Rightarrow> fallo" where
  "despues k = (case k of None \<Rightarrow> None | Some n \<Rightarrow> Some (n - 1))"

text \<open>
  What the \<^verbatim>\<open>try\<close> block of an operation comes to. It returns a value, with the state its
  writes have produced; or it throws before the transaction is committed, and \<open>Lanza\<close>
  keeps the state the writes of the transaction had produced when the error was thrown
  (with what is left of the failure plan, for the rollback still to come); or it throws
  after \<^verbatim>\<open>transaction.commit()\<close>, the committed state being the state of the store from then
  on.
\<close>

datatype 'a intento = Retorna 'a DB | Lanza error DB fallo | LanzaTrasCommit error DB

text \<open>
  \<open>llamada k db cont\<close> is a call to the store, made when the writes of the transaction
  have produced \<open>db\<close>, followed by the rest \<open>cont\<close> of the block: under the plan \<open>k\<close> the
  call throws, or it goes through and the rest runs under what is left of the plan. The
  rest computes the effect of the call.
\<close>

definition llamada :: "fallo \<Rightarrow> DB \<Rightarrow> (fallo \<Rightarrow> 'a intento) \<Rightarrow> 'a intento" where
  "llamada k db cont = (if falla k then Lanza Error db None else cont (despues k))"

text \<open>
  \<^verbatim>\<open>cerdo.reload(...)\<close> as \<^verbatim>\<open>crearCerdo\<close> and \<^verbatim>\<open>transferirCerdo\<close> call it: after the commit,
  still inside \<^verbatim>\<open>try\<close>, and followed by \<^verbatim>\<open>return\<close>.
\<close>

definition reload :: "fallo \<Rightarrow> DB \<Rightarrow> 'a \<Rightarrow> 'a intento" where
  "reload k db r = (if falla k then LanzaTrasCommit Error db else Retorna r db)"

text \<open>
  Every operation of \<^verbatim>\<open>CerdoService\<close> has the same frame: it opens a transaction, runs
  its block inside \<^verbatim>\<open>try\<close>, the block committing at its end, and in \<^verbatim>\<open>catch\<close> it rolls back
  and throws. Opening the transaction is the first call to the store, outside \<^verbatim>\<open>try\<close>.
  When the block returns, the state is the one its writes produced. When it throws before
  the commit, the rollback undoes the writes of the transaction, so that the state is the
  one before the call, and the error is passed on
  (a \<^verbatim>\<open>CerdoError\<close> as it is, anything else as a plain \<^verbatim>\<open>Error\<close>), unless the rollback is the
  call that fails: then its error is what the caller gets, and the store discards the
  transaction that was never committed. When the block throws after the commit,
  \<^verbatim>\<open>transaction.rollback()\<close> finds the transaction finished and throws a plain \<^verbatim>\<open>Error\<close>
  itself; the committed writes stay.
\<close>

definition transaccion :: "fallo \<Rightarrow> DB \<Rightarrow> (fallo \<Rightarrow> 'a intento) \<Rightarrow> (error + 'a) \<times> DB" where
  "transaccion k db cuerpo =
     (if falla k then (Inl Error, db)
      else (case cuerpo (despues k) of
              Retorna r db' \<Rightarrow> (Inr r, db')
            | Lanza e db' k' \<Rightarrow> (if falla k' then Inl Error else Inl e, db)
            | LanzaTrasCommit e db' \<Rightarrow> (Inl Error, db')))"

section \<open>Change log\<close>

datatype TipoCambio = PESO | ESTADO | CORRAL

datatype valor = Numero number | Texto string

record ICambioHistorial =
  fecha :: string
  tipo :: TipoCambio
  valorAnterior :: valor
  valorNuevo :: valor
  cambio_observaciones :: "string option"

definition TipoCambio_str :: "TipoCambio \<Rightarrow> string" where
  "TipoCambio_str t = (case t of PESO \<Rightarrow> ''PESO'' | ESTADO \<Rightarrow> ''ESTADO'' | CORRAL \<Rightarrow> ''CORRAL'')"

definition EstadoCerdo_str :: "EstadoCerdo \<Rightarrow> string" where
  "EstadoCerdo_str e =
     (case e of ACTIVO \<Rightarrow> ''ACTIVO'' | VENDIDO \<Rightarrow> ''VENDIDO'' | MUERTO \<Rightarrow> ''MUERTO''
      | ENFERMO \<Rightarrow> ''ENFERMO'')"

text \<open>The text a template literal puts for a value.\<close>

definition String_valor :: "Env \<Rightarrow> valor \<Rightarrow> string" where
  "String_valor env v = (case v of Numero r \<Rightarrow> env_String env r | Texto s \<Rightarrow> s)"

text \<open>A string used as a condition: \<^verbatim>\<open>undefined\<close> and the empty string are falsy.\<close>

definition truthy :: "string option \<Rightarrow> bool" where
  "truthy s = (case s of None \<Rightarrow> False | Some t \<Rightarrow> t \<noteq> [])"

definition linea_cambio :: "Env \<Rightarrow> ICambioHistorial \<Rightarrow> string" where
  "linea_cambio env cambio =
     fecha cambio @ '' - '' @ TipoCambio_str (tipo cambio) @ '': ''
       @ String_valor env (valorAnterior cambio) @ '' -> '' @ String_valor env (valorNuevo cambio)
       @ (case cambio_observaciones cambio of
            Some obs \<Rightarrow> if obs \<noteq> [] then '' ('' @ obs @ '')'' else []
          | None \<Rightarrow> [])"

definition registrarCambio :: "Env \<Rightarrow> Cerdo \<Rightarrow> ICambioHistorial \<Rightarrow> DB \<Rightarrow> Cerdo \<times> DB" where
  "registrarCambio env cerdo cambio db =
     (let observacion = linea_cambio env cambio;
          cerdo' = cerdo\<lparr>observaciones :=
            Some (case observaciones cerdo of
                    Some old \<Rightarrow> if old \<noteq> [] then old @ [CHR 0x0A] @ observacion else observacion
                  | None \<Rightarrow> observacion)\<rparr>
      in (cerdo', Cerdo_save cerdo' db))"

section \<open>CerdoService\<close>

text \<open>
  The bodies of the operations follow the source statement by statement. Every \<^verbatim>\<open>await\<close>
  on the store is a \<open>llamada\<close>, given the state the writes of the transaction have
  produced up to it; a \<^verbatim>\<open>throw\<close> is a \<open>Lanza\<close>. The two private helpers that write
  are given with their calls marked: \<^verbatim>\<open>registrarCambio\<close> is one update,
  \<^verbatim>\<open>actualizarPesoPromedioCorral\<close> a query and, when the query finds pigs, an update.
\<close>

definition registrarCambio_tx ::
    "Env \<Rightarrow> Cerdo \<Rightarrow> ICambioHistorial \<Rightarrow> DB \<Rightarrow> fallo
       \<Rightarrow> (Cerdo \<Rightarrow> DB \<Rightarrow> fallo \<Rightarrow> 'a intento) \<Rightarrow> 'a intento" where
  "registrarCambio_tx env cerdo cambio db k cont =
     llamada k db (\<lambda>k. case registrarCambio env cerdo cambio db of
                       (cerdo', db') \<Rightarrow> cont cerdo' db' k)"

text \<open>
  \<^verbatim>\<open>validarPeso\<close> computes in doubles: the literal \<^verbatim>\<open>0.3\<close> is the double nearest to
  \<open>3/10\<close>, and the difference and the quotient are each rounded.
\<close>

definition validarPeso :: "number \<Rightarrow> number \<Rightarrow> error + bool" where
  "validarPeso pesoActual pesoNuevo =
     (let variacionMaxima = redondear (3 / 10);
          diferenciaPorcentual = dividir (absoluto (resta pesoNuevo pesoActual)) pesoActual
      in if mayor diferenciaPorcentual variacionMaxima then Inl (CerdoError INVALID_WEIGHT)
         else Inr True)"

text \<open>The effect of \<^verbatim>\<open>actualizarPesoPromedioCorral\<close> on the state when its calls go through.\<close>

definition actualizarPesoPromedioCorral :: "string \<Rightarrow> DB \<Rightarrow> DB" where
  "actualizarPesoPromedioCorral corralId db =
     (let cs = filter (\<lambda>c. corral_id c = corralId \<and> estado c = ACTIVO) (cerdos db)
      in if length cs > 0
         then let promedio = dividir (foldl (\<lambda>sum c. suma sum (peso_actual c)) (Fin 0) cs)
                                      (Fin (of_nat (length cs)))
              in db\<lparr>corrales := map (\<lambda>k. if Corral_id k = corralId
                      then k\<lparr>Corral_peso_promedio_actual := promedio\<rparr> else k) (corrales db)\<rparr>
         else db)"

definition actualizarPesoPromedioCorral_tx ::
    "string \<Rightarrow> DB \<Rightarrow> fallo \<Rightarrow> (DB \<Rightarrow> fallo \<Rightarrow> 'a intento) \<Rightarrow> 'a intento" where
  "actualizarPesoPromedioCorral_tx corralId db k cont =
     llamada k db (\<lambda>k.
       let cs = filter (\<lambda>c. corral_id c = corralId \<and> estado c = ACTIVO) (cerdos db)
       in if length cs > 0
          then let promedio = dividir (foldl (\<lambda>sum c. suma sum (peso_actual c)) (Fin 0) cs)
                                       (Fin (of_nat (length cs)))
               in llamada k db (\<lambda>k.
                    cont (db\<lparr>corrales := map (\<lambda>k. if Corral_id k = corralId
                            then k\<lparr>Corral_peso_promedio_actual := promedio\<rparr> else k)
                            (corrales db)\<rparr>) k)
          else cont db k)"

definition registrarPesaje_try :: "Env \<Rightarrow> string \<Rightarrow> number \<Rightarrow> DB \<Rightarrow> fallo \<Rightarrow> Cerdo intento" where
  "registrarPesaje_try env i nuevoPeso db k =
     llamada k db (\<lambda>k.
     case Cerdo_findByPk db i of
       None \<Rightarrow> Lanza (CerdoError NOT_FOUND) db k
     | Some cerdo \<Rightarrow>
         if menor_igual nuevoPeso (Fin 0) then Lanza (CerdoError INVALID_WEIGHT) db k
         else
           (case (if mayor (peso_actual cerdo) (Fin 0)
                  then validarPeso (peso_actual cerdo) nuevoPeso
                  else Inr True) of
              Inl e \<Rightarrow> Lanza e db k
            | Inr _ \<Rightarrow>
                let pesoAnterior = peso_actual cerdo
                in llamada k db (\<lambda>k.
                   let cerdo1 = cerdo\<lparr>peso_actual := nuevoPeso,
                                      ultima_fecha_pesaje := Some (env_now env)\<rparr>;
                       db1 = Cerdo_save cerdo1 db
                   in registrarCambio_tx env cerdo1
                        \<lparr>fecha = env_now env, tipo = PESO, valorAnterior = Numero pesoAnterior,
                         valorNuevo = Numero nuevoPeso, cambio_observaciones = None\<rparr> db1 k
                        (\<lambda>cerdo2 db2 k.
                   actualizarPesoPromedioCorral_tx (corral_id cerdo2) db2 k (\<lambda>db3 k.
                   llamada k db3 (\<lambda>k. Retorna cerdo2 db3))))))"

text \<open>
  An operation under a failure plan, and the operation itself: the one whose calls to the
  store all go through.
\<close>

definition registrarPesaje_fallo ::
    "fallo \<Rightarrow> Env \<Rightarrow> string \<Rightarrow> number \<Rightarrow> DB \<Rightarrow> (error + Cerdo) \<times> DB" where
  "registrarPesaje_fallo k env i nuevoPeso db =
     transaccion k db (registrarPesaje_try env i nuevoPeso db)"

definition registrarPesaje :: "Env \<Rightarrow> string \<Rightarrow> number \<Rightarrow> DB \<Rightarrow> (error + Cerdo) \<times> DB" where
  "registrarPesaje env i nuevoPeso db = registrarPesaje_fallo None env i nuevoPeso db"

definition crearCerdo_try :: "Env \<Rightarrow> ICerdoBase \<Rightarrow> DB \<Rightarrow> fallo \<Rightarrow> Cerdo intento" where
  "crearCerdo_try env data db k =
     llamada k db (\<lambda>k.
     case Lote_findByPk db (lote_id data) of
       None \<Rightarrow> Lanza (CerdoError NOT_FOUND) db k
     | Some lote \<Rightarrow>
     llamada k db (\<lambda>k.
     case find (\<lambda>k. Corral_id k = corral_id data \<and> Corral_lote_id k = lote_id data)
            (corrales db) of
       None \<Rightarrow> Lanza (CerdoError NOT_FOUND) db k
     | Some corral \<Rightarrow>
         if Corral_ocupacion_actual corral \<ge> Corral_capacidad corral
         then Lanza (CerdoError CORRAL_FULL) db k
         else
     llamada k db (\<lambda>k.
     case find (\<lambda>c. arete c = arete data) (cerdos db) of
       Some cerdoExistente \<Rightarrow> Lanza (CerdoError DUPLICATE_ARETE) db k
     | None \<Rightarrow>
     llamada k db (\<lambda>k.
     case Cerdo_create env
            (data\<lparr>estado := ACTIVO, peso_actual := peso_inicial data,
                  ultima_fecha_pesaje := Some (env_now env)\<rparr>) db of
       Inl e \<Rightarrow> Lanza e db k
     | Inr (cerdo, db1) \<Rightarrow>
     registrarCambio_tx env cerdo
       \<lparr>fecha = env_now env, tipo = PESO, valorAnterior = Numero (Fin 0),
        valorNuevo = Numero (peso_inicial data),
        cambio_observaciones = Some ''Peso inicial al crear cerdo''\<rparr> db1 k (\<lambda>cerdo1 db2 k.
     llamada k db2 (\<lambda>k. let db3 = Corral_increment (Corral_id corral) 1 db2 in
     llamada k db3 (\<lambda>k. let db4 = Lote_increment (Lote_id lote) 1 db3 in
     actualizarPesoPromedioCorral_tx (Corral_id corral) db4 k (\<lambda>db5 k.
     llamada k db5 (\<lambda>k.
     reload k db5 cerdo1)))))))))"

definition crearCerdo_fallo :: "fallo \<Rightarrow> Env \<Rightarrow> ICerdoBase \<Rightarrow> DB \<Rightarrow> (error + Cerdo) \<times> DB" where
  "crearCerdo_fallo k env data db = transaccion k db (crearCerdo_try env data db)"

definition crearCerdo :: "Env \<Rightarrow> ICerdoBase \<Rightarrow> DB \<Rightarrow> (error + Cerdo) \<times> DB" where
  "crearCerdo env data db = crearCerdo_fallo None env data db"

definition cambiarEstado_try ::
    "Env \<Rightarrow> string \<Rightarrow> EstadoCerdo \<Rightarrow> string option \<Rightarrow> DB \<Rightarrow> fallo \<Rightarrow> Cerdo intento" where
  "cambiarEstado_try env i nuevoEstado observacion db k =
     llamada k db (\<lambda>k.
     case Cerdo_findByPk db i of
       None \<Rightarrow> Lanza (CerdoError NOT_FOUND) db k
     | Some cerdo \<Rightarrow>
         let estadoAnterior = estado cerdo;
             resto = (\<lambda>db1 k.
               registrarCambio_tx env cerdo
                 \<lparr>fecha = env_now env, tipo = ESTADO,
                  valorAnterior = Texto (EstadoCerdo_str estadoAnterior),
                  valorNuevo = Texto (EstadoCerdo_str nuevoEstado),
                  cambio_observaciones = observacion\<rparr> db1 k (\<lambda>cerdo1 db2 k.
               llamada k db2 (\<lambda>k.
               let cerdo2 = cerdo1\<lparr>estado := nuevoEstado\<rparr>;
                   db3 = Cerdo_save cerdo2 db2
               in llamada k db3 (\<lambda>k. Retorna cerdo2 db3))))
         in if (nuevoEstado = MUERTO \<or> nuevoEstado = VENDIDO) \<and> estado cerdo = ACTIVO
            then llamada k db (\<lambda>k. let dbA = Corral_decrement (corral_id cerdo) 1 db in
                 llamada k dbA (\<lambda>k. let dbB = Lote_decrement (lote_id cerdo) 1 dbA in
                 resto dbB k))
            else resto db k)"

definition cambiarEstado_fallo ::
    "fallo \<Rightarrow> Env \<Rightarrow> string \<Rightarrow> EstadoCerdo \<Rightarrow> string option \<Rightarrow> DB \<Rightarrow> (error + Cerdo) \<times> DB" where
  "cambiarEstado_fallo k env i nuevoEstado observacion db =
     transaccion k db (cambiarEstado_try env i nuevoEstado observacion db)"

definition cambiarEstado ::
    "Env \<Rightarrow> string \<Rightarrow> EstadoCerdo \<Rightarrow> string option \<Rightarrow> DB \<Rightarrow> (error + Cerdo) \<times> DB" where
  "cambiarEstado env i nuevoEstado observacion db =
     cambiarEstado_fallo None env i nuevoEstado observacion db"

definition transferirCerdo_try :: "Env \<Rightarrow> string \<Rightarrow> string \<Rightarrow> DB \<Rightarrow> fallo \<Rightarrow> Cerdo intento" where
  "transferirCerdo_try env idCerdo idNuevoCorral db k =
     llamada k db (\<lambda>k.
     case Cerdo_findByPk db idCerdo of
       None \<Rightarrow> Lanza (CerdoError NOT_FOUND) db k
     | Some cerdo \<Rightarrow>
     llamada k db (\<lambda>k.
     case Corral_findByPk db idNuevoCorral of
       None \<Rightarrow> Lanza (CerdoError NOT_FOUND) db k
     | Some corralDestino \<Rightarrow>
         if Corral_ocupacion_actual corralDestino \<ge> Corral_capacidad corralDestino
         then Lanza (CerdoError CORRAL_FULL) db k
         else
           let corralAnterior = corral_id cerdo;
               resto = (\<lambda>db1 k.
                 registrarCambio_tx env cerdo
                   \<lparr>fecha = env_now env, tipo = CORRAL,
                    valorAnterior = Texto corralAnterior,
                    valorNuevo = Texto idNuevoCorral,
                    cambio_observaciones = None\<rparr> db1 k (\<lambda>cerdo1 db2 k.
                 llamada k db2 (\<lambda>k.
                 let cerdo2 = cerdo1\<lparr>corral_id := idNuevoCorral\<rparr>;
                     db3 = Cerdo_save cerdo2 db2
                 in actualizarPesoPromedioCorral_tx corralAnterior db3 k (\<lambda>db4 k.
                    actualizarPesoPromedioCorral_tx idNuevoCorral db4 k (\<lambda>db5 k.
                    llamada k db5 (\<lambda>k.
                    reload k db5 cerdo2))))))
           in llamada k db (\<lambda>k.
              case Corral_findByPk db (corral_id cerdo) of
                Some corralOrigen \<Rightarrow>
                  llamada k db (\<lambda>k. let dbA = Corral_decrement (Corral_id corralOrigen) 1 db in
                  llamada k dbA (\<lambda>k. let dbB = Corral_increment (Corral_id corralDestino) 1 dbA in
                  resto dbB k))
              | None \<Rightarrow> resto db k)))"

definition transferirCerdo_fallo ::
    "fallo \<Rightarrow> Env \<Rightarrow> string \<Rightarrow> string \<Rightarrow> DB \<Rightarrow> (error + Cerdo) \<times> DB" where
  "transferirCerdo_fallo k env idCerdo idNuevoCorral db =
     transaccion k db (transferirCerdo_try env idCerdo idNuevoCorral db)"

definition transferirCerdo :: "Env \<Rightarrow> string \<Rightarrow> string \<Rightarrow> DB \<Rightarrow> (error + Cerdo) \<times> DB" where
  "transferirCerdo env idCerdo idNuevoCorral db =
     transferirCerdo_fallo None env idCerdo idNuevoCorral db"

subsection \<open>Reading the history back\<close>

text \<open>
  \<^verbatim>\<open>obtenerHistorial\<close> splits the notes at line feeds and matches every line against
  \<^verbatim>\<open>/^(.+) - (PESO|ESTADO|CORRAL): (.+) -> (.+?)(?:\s*\((.*)\))?$/\<close>.
  The matcher below is the backtracking matcher of that expression: every piece takes
  the rest of the pattern as a continuation, a greedy repetition tries the longer match
  first and a lazy one the shorter, and the first alternative that lets the whole
  pattern match wins. Characters are 8-bit code units, so of the line terminators only
  line feed and carriage return occur, and of the white space only the seven below.
\<close>

definition punto :: "char \<Rightarrow> bool" where
  "punto c = (c \<noteq> CHR 0x0A \<and> c \<noteq> CHR 0x0D)"

definition espacio :: "char \<Rightarrow> bool" where
  "espacio c = (c = CHR 0x09 \<or> c = CHR 0x0A \<or> c = CHR 0x0B \<or> c = CHR 0x0C \<or> c = CHR 0x0D
                 \<or> c = CHR 0x20 \<or> c = CHR 0xA0)"

fun rep_greedy :: "(char \<Rightarrow> bool) \<Rightarrow> (string \<Rightarrow> string \<Rightarrow> 'a option) \<Rightarrow> string \<Rightarrow> string \<Rightarrow> 'a option" where
  "rep_greedy P k acc [] = k acc []"
| "rep_greedy P k acc (c # cs) =
     (if P c
      then (case rep_greedy P k (acc @ [c]) cs of Some r \<Rightarrow> Some r | None \<Rightarrow> k acc (c # cs))
      else k acc (c # cs))"

fun rep_lazy :: "(char \<Rightarrow> bool) \<Rightarrow> (string \<Rightarrow> string \<Rightarrow> 'a option) \<Rightarrow> string \<Rightarrow> string \<Rightarrow> 'a option" where
  "rep_lazy P k acc [] = k acc []"
| "rep_lazy P k acc (c # cs) =
     (case k acc (c # cs) of
        Some r \<Rightarrow> Some r
      | None \<Rightarrow> if P c then rep_lazy P k (acc @ [c]) cs else None)"

text \<open>\<^verbatim>\<open>x+\<close> and \<^verbatim>\<open>x+?\<close>: one character, then the repetition.\<close>

definition plus_greedy :: "(char \<Rightarrow> bool) \<Rightarrow> (string \<Rightarrow> string \<Rightarrow> 'a option) \<Rightarrow> string \<Rightarrow> 'a option" where
  "plus_greedy P k s = (case s of [] \<Rightarrow> None | c # cs \<Rightarrow> if P c then rep_greedy P k [c] cs else None)"

definition plus_lazy :: "(char \<Rightarrow> bool) \<Rightarrow> (string \<Rightarrow> string \<Rightarrow> 'a option) \<Rightarrow> string \<Rightarrow> 'a option" where
  "plus_lazy P k s = (case s of [] \<Rightarrow> None | c # cs \<Rightarrow> if P c then rep_lazy P k [c] cs else None)"

definition lit :: "string \<Rightarrow> (string \<Rightarrow> 'a option) \<Rightarrow> string \<Rightarrow> 'a option" where
  "lit p k s = (if prefix p s then k (drop (length p) s) else None)"

definition fin :: "'a \<Rightarrow> string \<Rightarrow> 'a option" where
  "fin r s = (if s = [] then Some r else None)"

definition alt_tipo :: "(TipoCambio \<Rightarrow> string \<Rightarrow> 'a option) \<Rightarrow> string \<Rightarrow> 'a option" where
  "alt_tipo k s =
     (case lit ''PESO'' (k PESO) s of
        Some r \<Rightarrow> Some r
      | None \<Rightarrow>
          (case lit ''ESTADO'' (k ESTADO) s of
             Some r \<Rightarrow> Some r
           | None \<Rightarrow> lit ''CORRAL'' (k CORRAL) s))"

text \<open>\<^verbatim>\<open>(?:\s*\((.*)\))?\<close>: the group is tried first; without it the fifth capture is undefined.\<close>

definition opt_nota :: "(string option \<Rightarrow> string \<Rightarrow> 'a option) \<Rightarrow> string \<Rightarrow> 'a option" where
  "opt_nota k s =
     (case rep_greedy espacio
             (\<lambda>_. lit ''('' (rep_greedy punto (\<lambda>m5. lit '')'' (k (Some m5))) [])) [] s of
        Some r \<Rightarrow> Some r
      | None \<Rightarrow> k None s)"

definition match_linea :: "string \<Rightarrow> (string \<times> TipoCambio \<times> string \<times> string \<times> string option) option" where
  "match_linea linea =
     plus_greedy punto (\<lambda>m1. lit '' - '' (alt_tipo (\<lambda>m2. lit '': ''
       (plus_greedy punto (\<lambda>m3. lit '' -> ''
         (plus_lazy punto (\<lambda>m4. opt_nota (\<lambda>m5. fin (m1, m2, m3, m4, m5))))))))) linea"

text \<open>\<^verbatim>\<open>split('\n')\<close>\<close>

fun split_lineas :: "string \<Rightarrow> string list" where
  "split_lineas [] = [[]]"
| "split_lineas (c # cs) =
     (if c = CHR 0x0A then [] # split_lineas cs
      else (case split_lineas cs of l # ls \<Rightarrow> (c # l) # ls | [] \<Rightarrow> [[c]]))"

fun lineas_historial :: "string list \<Rightarrow> ICambioHistorial list" where
  "lineas_historial [] = []"
| "lineas_historial (linea # lineas) =
     (case match_linea linea of
        Some (m1, m2, m3, m4, m5) \<Rightarrow>
          \<lparr>fecha = m1, tipo = m2, valorAnterior = Texto m3, valorNuevo = Texto m4,
           cambio_observaciones = m5\<rparr> # lineas_historial lineas
      | None \<Rightarrow> lineas_historial lineas)"

definition historial_cerdo :: "Cerdo \<Rightarrow> ICambioHistorial list" where
  "historial_cerdo cerdo =
     (case observaciones cerdo of
        None \<Rightarrow> []
      | Some obs \<Rightarrow> if obs = [] then [] else lineas_historial (split_lineas obs))"

definition obtenerHistorial :: "DB \<Rightarrow> string \<Rightarrow> error + ICambioHistorial list" where
  "obtenerHistorial db i =
     (case Cerdo_findByPk db i of
        None \<Rightarrow> Inl (CerdoError NOT_FOUND)
      | Some cerdo \<Rightarrow> Inr (historial_cerdo cerdo))"

section \<open>CorralService\<close>




section \<open>CorralController\<close>







text \<open>
  \<^verbatim>\<open>updateCorralSchema\<close> is \<^verbatim>\<open>corralSchema\<close> with \<^verbatim>\<open>numero\<close> and \<^verbatim>\<open>lote_id\<close> made optional:
  \<^verbatim>\<open>capacidad\<close> and \<^verbatim>\<open>tipo\<close> stay required, and \<^verbatim>\<open>ocupacion_actual\<close> and
  \<^verbatim>\<open>peso_promedio_actual\<close> take their default 0 when absent. One rule per key follows; a
  rule gives the validated value of the key, or \<open>None\<close> when the value breaks it. What a
  UUID is, is left to the parameter \<open>uuid\<close>.
\<close>










section \<open>Observations and sample data\<close>

text \<open>What a caller can read of a pen and a lot: the stored counters and average.\<close>

definition ocupacion :: "DB \<Rightarrow> string \<Rightarrow> int option" where
  "ocupacion db i = map_option Corral_ocupacion_actual (Corral_findByPk db i)"

definition capacidad :: "DB \<Rightarrow> string \<Rightarrow> int option" where
  "capacidad db i = map_option Corral_capacidad (Corral_findByPk db i)"

definition peso_promedio :: "DB \<Rightarrow> string \<Rightarrow> number option" where
  "peso_promedio db i = map_option Corral_peso_promedio_actual (Corral_findByPk db i)"

definition cantidad_actual :: "DB \<Rightarrow> string \<Rightarrow> int option" where
  "cantidad_actual db i = map_option Lote_cantidad_actual (Lote_findByPk db i)"

definition estado_cerdo :: "DB \<Rightarrow> string \<Rightarrow> EstadoCerdo option" where
  "estado_cerdo db i = map_option estado (Cerdo_findByPk db i)"

definition peso_cerdo :: "DB \<Rightarrow> string \<Rightarrow> number option" where
  "peso_cerdo db i = map_option peso_actual (Cerdo_findByPk db i)"

definition corral_cerdo :: "DB \<Rightarrow> string \<Rightarrow> string option" where
  "corral_cerdo db i = map_option corral_id (Cerdo_findByPk db i)"

definition cerdos_activos :: "DB \<Rightarrow> string \<Rightarrow> Cerdo list" where
  "cerdos_activos db k = filter (\<lambda>c. corral_id c = k \<and> estado c = ACTIVO) (cerdos db)"


text \<open>
  Two properties of what a \<^verbatim>\<open>try\<close> block comes to under a failure plan. It stays before
  the commit when it does not throw after it. It is all or nothing against the same block
  with no failing call when it returns what that returns, or throws before the commit,
  or throws after the commit with the state that block returns.
\<close>

definition antes_del_commit :: "'a intento \<Rightarrow> bool" where
  "antes_del_commit t = (case t of LanzaTrasCommit e db \<Rightarrow> False | _ \<Rightarrow> True)"

definition todo_o_nada :: "'a intento \<Rightarrow> 'a intento \<Rightarrow> bool" where
  "todo_o_nada t t0 =
     (case t of
        Retorna r db \<Rightarrow> t0 = Retorna r db
      | Lanza e db k \<Rightarrow> True
      | LanzaTrasCommit e db \<Rightarrow> (case t0 of Retorna r db0 \<Rightarrow> db0 = db | _ \<Rightarrow> False))"

text \<open>
  When a change can be read back. A value is simple when it is not empty and has no white
  space, no \<open>>\<close> and no \<open>(\<close>: numbers, state names and UUIDs are. A note is legible when
  it has no line break and nowhere the arrow \<open> -> \<close> with its two spaces, a date when it is
  not empty and has no line break.
  What is then read back is the change with both values as text, and with an empty note
  as no note.
\<close>

definition texto_simple :: "string \<Rightarrow> bool" where
  "texto_simple s = (s \<noteq> [] \<and> (\<forall>c\<in>set s. \<not> espacio c \<and> c \<noteq> CHR ''>'' \<and> c \<noteq> CHR ''(''))"

definition nota_legible :: "string option \<Rightarrow> bool" where
  "nota_legible nota =
     (case nota of
        None \<Rightarrow> True
      | Some obs \<Rightarrow> (\<forall>c\<in>set obs. punto c) \<and> \<not> sublist '' -> '' obs)"

definition nota_leida :: "string option \<Rightarrow> string option" where
  "nota_leida nota = (if truthy nota then nota else None)"

definition sufijo_nota :: "string option \<Rightarrow> string" where
  "sufijo_nota nota =
     (case nota of Some obs \<Rightarrow> if obs \<noteq> [] then '' ('' @ obs @ '')'' else [] | None \<Rightarrow> [])"

definition cambio_legible :: "Env \<Rightarrow> ICambioHistorial \<Rightarrow> bool" where
  "cambio_legible env cambio =
     (fecha cambio \<noteq> [] \<and> (\<forall>c\<in>set (fecha cambio). punto c)
      \<and> texto_simple (String_valor env (valorAnterior cambio))
      \<and> texto_simple (String_valor env (valorNuevo cambio))
      \<and> nota_legible (cambio_observaciones cambio))"

definition cambio_leido :: "Env \<Rightarrow> ICambioHistorial \<Rightarrow> ICambioHistorial" where
  "cambio_leido env cambio =
     \<lparr>fecha = fecha cambio, tipo = tipo cambio,
      valorAnterior = Texto (String_valor env (valorAnterior cambio)),
      valorNuevo = Texto (String_valor env (valorNuevo cambio)),
      cambio_observaciones = nota_leida (cambio_observaciones cambio)\<rparr>"

text \<open>Several changes appended to the notes of one pig, one after the other.\<close>

fun registrarCambios :: "Env \<Rightarrow> Cerdo \<Rightarrow> ICambioHistorial list \<Rightarrow> DB \<Rightarrow> Cerdo \<times> DB" where
  "registrarCambios env cerdo [] db = (cerdo, db)"
| "registrarCambios env cerdo (cambio # cambios) db =
     (case registrarCambio env cerdo cambio db of
        (cerdo', db') \<Rightarrow> registrarCambios env cerdo' cambios db')"

text \<open>
  A small farm: lot \<open>L1\<close> with pens \<open>A\<close> and \<open>B\<close>, lot \<open>L2\<close> with pen \<open>X\<close>, the finalised
  lot \<open>L3\<close> with pen \<open>F\<close>. Pen \<open>A\<close> holds an active and a sick pig; a dead and a sold pig
  were in it before. Pen \<open>X\<close> holds a pig whose weight was entered as 0. The weights are
  whole numbers, which are doubles as they stand.
\<close>

fun decimal :: "nat \<Rightarrow> string" where
  "decimal n = (if n < 10 then [char_of (48 + n)] else decimal (n div 10) @ [char_of (48 + n mod 10)])"

declare decimal.simps [simp del]

definition String_entero :: "number \<Rightarrow> string" where
  "String_entero x = (case x of Fin r \<Rightarrow> decimal (nat \<lfloor>r\<rfloor>) | NegZero \<Rightarrow> ''0''
                      | Infinity \<Rightarrow> ''Infinity'' | NegInfinity \<Rightarrow> ''-Infinity'' | NaN \<Rightarrow> ''NaN'')"

definition env0 :: Env where
  "env0 = \<lparr>env_now = ''2024-03-01T10:00:00.000Z'', env_uuid = ''c-9'', env_String = String_entero\<rparr>"

definition lote_de :: "string \<Rightarrow> string \<Rightarrow> int \<Rightarrow> int \<Rightarrow> EstadoLote \<Rightarrow> Lote" where
  "lote_de i codigo inicial actual e =
     \<lparr>Lote_id = i, Lote_codigo = codigo, Lote_cantidad_inicial = inicial,
      Lote_cantidad_actual = actual, Lote_estado = e, Lote_sitio = ENGORDE\<rparr>"

definition corral_de :: "string \<Rightarrow> string \<Rightarrow> string \<Rightarrow> int \<Rightarrow> int \<Rightarrow> rat \<Rightarrow> Corral" where
  "corral_de i numero lote cap ocup promedio =
     \<lparr>Corral_id = i, Corral_numero = numero, Corral_capacidad = cap,
      Corral_ocupacion_actual = ocup, Corral_lote_id = lote, Corral_tipo = CORRAL_ENGORDE,
      Corral_peso_promedio_actual = Fin promedio\<rparr>"

definition cerdo_de :: "string \<Rightarrow> string \<Rightarrow> string \<Rightarrow> string \<Rightarrow> rat \<Rightarrow> EstadoCerdo \<Rightarrow> Cerdo" where
  "cerdo_de i a lote corral peso e =
     \<lparr>arete = a, lote_id = lote, corral_id = corral, peso_inicial = Fin peso,
      peso_actual = Fin peso, fecha_ingreso = ''2024-01-15T08:00:00.000Z'', semana_vida = 8,
      estado = e,
      ultima_fecha_pesaje = None, observaciones = None, Cerdo_id = i\<rparr>"

definition datos_cerdo :: "string \<Rightarrow> string \<Rightarrow> string \<Rightarrow> rat \<Rightarrow> ICerdoBase" where
  "datos_cerdo a lote corral peso =
     \<lparr>arete = a, lote_id = lote, corral_id = corral, peso_inicial = Fin peso,
      peso_actual = Fin peso, fecha_ingreso = ''2024-03-01T08:00:00.000Z'', semana_vida = 8,
      estado = ACTIVO,
      ultima_fecha_pesaje = None, observaciones = None\<rparr>"

definition granja :: DB where
  "granja =
     \<lparr>lotes = [lote_de ''L1'' ''LOTE-2024-001'' 4 2 LOTE_ACTIVO,
               lote_de ''L2'' ''LOTE-2024-002'' 5 1 LOTE_ACTIVO,
               lote_de ''L3'' ''LOTE-2023-007'' 6 0 FINALIZADO],
      corrales = [corral_de ''A'' ''A-01'' ''L1'' 10 2 20,
                  corral_de ''B'' ''B-01'' ''L1'' 10 0 0,
                  corral_de ''X'' ''X-01'' ''L2'' 5 1 0,
                  corral_de ''F'' ''F-01'' ''L3'' 6 0 0],
      cerdos = [cerdo_de ''c-1'' ''T-000001'' ''L1'' ''A'' 20 ACTIVO,
                cerdo_de ''c-2'' ''T-000002'' ''L1'' ''A'' 18 ENFERMO,
                cerdo_de ''c-3'' ''T-000003'' ''L1'' ''A'' 24 MUERTO,
                cerdo_de ''c-4'' ''T-000004'' ''L1'' ''A'' 30 VENDIDO,
                cerdo_de ''c-5'' ''T-000005'' ''L2'' ''X'' 0 ACTIVO]\<rparr>"

text \<open>
  A second sample for weighing: one pig of 10.7 kg, alone in its pen. \<open>peso_10_7\<close> and
  \<open>peso_7_49\<close> are the doubles that the literals \<^verbatim>\<open>10.7\<close> and \<^verbatim>\<open>7.489999999999999\<close> denote,
  and \<open>String_pesaje\<close> prints them as JavaScript does.
\<close>

definition peso_10_7 :: rat where
  "peso_10_7 = 3011782250804019 / 281474976710656"

definition peso_7_49 :: rat where
  "peso_7_49 = 8432990302251253 / 1125899906842624"

definition String_pesaje :: "number \<Rightarrow> string" where
  "String_pesaje x =
     (if x = Fin peso_10_7 then ''10.7''
      else if x = Fin peso_7_49 then ''7.489999999999999''
      else String_entero x)"

definition env1 :: Env where
  "env1 = \<lparr>env_now = ''2024-03-01T10:00:00.000Z'', env_uuid = ''p-9'', env_String = String_pesaje\<rparr>"

definition pesaje_db :: DB where
  "pesaje_db =
     \<lparr>lotes = [lote_de ''L1'' ''LOTE-2024-001'' 1 1 LOTE_ACTIVO],
      corrales = [corral_de ''A'' ''A-01'' ''L1'' 10 1 peso_10_7],
      cerdos = [cerdo_de ''p-1'' ''T-000007'' ''L1'' ''A'' peso_10_7 ACTIVO]\<rparr>"



section \<open>Doubles\<close>

lemma pot_power: "pot x n = x ^ nat n"
proof (induction x n rule: pot.induct)
  case (1 x n)
  show ?case
  proof (cases "n \<le> 0")
    case True
    then show ?thesis by (simp add: pot.simps [of x n])
  next
    case False
    then have n: "0 < n" by simp
    have h: "pot (x * x) (n div 2) = (x * x) ^ nat (n div 2)"
      using 1 False by (cases "even n") auto
    have e: "(x * x) ^ nat (n div 2) = x ^ (2 * nat (n div 2))"
      by (simp add: power_mult power2_eq_square)
    show ?thesis
    proof (cases "even n")
      case True
      then have "2 * nat (n div 2) = nat n" using n by (auto elim!: evenE)
      then show ?thesis using n True h e by (simp add: pot.simps [of x n])
    next
      case False
      then have "Suc (2 * nat (n div 2)) = nat n"
        using n by (auto elim!: oddE simp: nat_add_distrib nat_mult_distrib)
      then have "x * x ^ (2 * nat (n div 2)) = x ^ nat n" by (metis power_Suc)
      then show ?thesis using n False h e by (simp add: pot.simps [of x n])
    qed
  qed
qed

text \<open>
  Some values: whole numbers are doubles as they stand, and the double that \<^verbatim>\<open>0.3\<close>
  denotes lies below \<open>3/10\<close>.
\<close>

lemma redondear_muestras:
  "redondear 20 = Fin 20"
  "redondear (1 / 5) = Fin (3602879701896397 / 18014398509481984)"
  "redondear (3 / 10) = Fin (5404319552844595 / 18014398509481984)"
  "(5404319552844595 / 18014398509481984 :: rat) < 3 / 10"
  by code_simp+

lemma menor_igual_Fin [simp]: "menor_igual (Fin a) (Fin b) = (a \<le> b)"
  by (simp add: menor_igual_def posicion_def)

lemma mayor_Fin [simp]: "mayor (Fin a) (Fin b) = (b < a)"
  by (simp add: mayor_def posicion_def)

text \<open>No comparison holds of \<^verbatim>\<open>NaN\<close>, and a quotient by a zero is no finite number.\<close>

lemma comparar_NaN [simp]:
  "\<not> mayor NaN x" "\<not> mayor x NaN" "\<not> menor_igual NaN x" "\<not> menor_igual x NaN"
  by (simp_all add: mayor_def menor_igual_def posicion_def split: option.splits)

lemma dividir_por_cero:
  "0 < a \<Longrightarrow> dividir (Fin a) (Fin 0) = Infinity"
  "dividir (Fin 0) (Fin 0) = NaN"
  by (simp_all add: dividir_def es_cero_def es_infinito_def negativo_def)

section \<open>The store\<close>

lemmas fixture_defs = granja_def lote_de_def corral_de_def cerdo_de_def datos_cerdo_def

lemma find_map_replace:
  assumes "\<And>r. key r = j \<Longrightarrow> key (f r) = j"
  shows "find (\<lambda>r. key r = i) (map (\<lambda>r. if key r = j then f r else r) rs)
           = (if i = j then map_option f (find (\<lambda>r. key r = i) rs)
              else find (\<lambda>r. key r = i) rs)"
  using assms by (induction rs) auto

lemma Cerdo_findByPk_id: "Cerdo_findByPk db i = Some c \<Longrightarrow> Cerdo_id c = i"
  by (auto simp: Cerdo_findByPk_def find_Some_iff)

lemma Cerdo_findByPk_save:
  "Cerdo_findByPk (Cerdo_save c db) i
     = (if i = Cerdo_id c then map_option (\<lambda>_. c) (Cerdo_findByPk db i)
        else Cerdo_findByPk db i)"
  unfolding Cerdo_findByPk_def Cerdo_save_def
  using find_map_replace [of Cerdo_id "Cerdo_id c" "\<lambda>_. c" i "cerdos db"] by simp

lemma tables_Cerdo_save [simp]:
  "lotes (Cerdo_save c db) = lotes db" "corrales (Cerdo_save c db) = corrales db"
  by (simp_all add: Cerdo_save_def)

lemma tables_Corral_increment [simp]:
  "lotes (Corral_increment i n db) = lotes db" "cerdos (Corral_increment i n db) = cerdos db"
  by (simp_all add: Corral_increment_def)

lemma tables_Lote_increment [simp]:
  "corrales (Lote_increment i n db) = corrales db" "cerdos (Lote_increment i n db) = cerdos db"
  by (simp_all add: Lote_increment_def)

lemma tables_actualizarPesoPromedioCorral [simp]:
  "lotes (actualizarPesoPromedioCorral k db) = lotes db"
  "cerdos (actualizarPesoPromedioCorral k db) = cerdos db"
  by (simp_all add: actualizarPesoPromedioCorral_def Let_def)

lemma Cerdo_findByPk_cong:
  "cerdos db' = cerdos db \<Longrightarrow> Cerdo_findByPk db' i = Cerdo_findByPk db i"
  by (simp add: Cerdo_findByPk_def)

lemma Corral_findByPk_cong:
  "corrales db' = corrales db \<Longrightarrow> Corral_findByPk db' i = Corral_findByPk db i"
  by (simp add: Corral_findByPk_def)

lemma Lote_findByPk_cong:
  "lotes db' = lotes db \<Longrightarrow> Lote_findByPk db' i = Lote_findByPk db i"
  by (simp add: Lote_findByPk_def)

lemma granja_c1:
  "Cerdo_findByPk granja ''c-1'' = Some (cerdo_de ''c-1'' ''T-000001'' ''L1'' ''A'' 20 ACTIVO)"
  by (simp add: Cerdo_findByPk_def fixture_defs)

lemma granja_c2:
  "Cerdo_findByPk granja ''c-2'' = Some (cerdo_de ''c-2'' ''T-000002'' ''L1'' ''A'' 18 ENFERMO)"
  by (simp add: Cerdo_findByPk_def fixture_defs)

lemma granja_c3:
  "Cerdo_findByPk granja ''c-3'' = Some (cerdo_de ''c-3'' ''T-000003'' ''L1'' ''A'' 24 MUERTO)"
  by (simp add: Cerdo_findByPk_def fixture_defs)

lemma granja_c4:
  "Cerdo_findByPk granja ''c-4'' = Some (cerdo_de ''c-4'' ''T-000004'' ''L1'' ''A'' 30 VENDIDO)"
  by (simp add: Cerdo_findByPk_def fixture_defs)

lemma granja_c5:
  "Cerdo_findByPk granja ''c-5'' = Some (cerdo_de ''c-5'' ''T-000005'' ''L2'' ''X'' 0 ACTIVO)"
  by (simp add: Cerdo_findByPk_def fixture_defs)

lemma Corral_findByPk_id: "Corral_findByPk db i = Some c \<Longrightarrow> Corral_id c = i"
  by (auto simp: Corral_findByPk_def find_Some_iff)

lemma ocupacion_Corral_increment:
  "ocupacion (Corral_increment i n db) j
     = (if j = i then map_option (\<lambda>x. x + n) (ocupacion db j) else ocupacion db j)"
  unfolding ocupacion_def Corral_findByPk_def Corral_increment_def
  using find_map_replace [of Corral_id i
      "\<lambda>k. k\<lparr>Corral_ocupacion_actual := Corral_ocupacion_actual k + n\<rparr>" j "corrales db"]
  by (simp add: option.map_comp comp_def)

lemma cantidad_Lote_increment:
  "cantidad_actual (Lote_increment i n db) j
     = (if j = i then map_option (\<lambda>x. x + n) (cantidad_actual db j) else cantidad_actual db j)"
  unfolding cantidad_actual_def Lote_findByPk_def Lote_increment_def
  using find_map_replace [of Lote_id i
      "\<lambda>l. l\<lparr>Lote_cantidad_actual := Lote_cantidad_actual l + n\<rparr>" j "lotes db"]
  by (simp add: option.map_comp comp_def)

lemma ocupacion_cong: "corrales db' = corrales db \<Longrightarrow> ocupacion db' j = ocupacion db j"
  by (simp add: ocupacion_def Corral_findByPk_def)

lemma cantidad_cong: "lotes db' = lotes db \<Longrightarrow> cantidad_actual db' j = cantidad_actual db j"
  by (simp add: cantidad_actual_def Lote_findByPk_def)

lemma ocupacion_actualizarPesoPromedioCorral:
  "ocupacion (actualizarPesoPromedioCorral k db) j = ocupacion db j"
proof -
  have *: "find (\<lambda>r. Corral_id r = j)
          (map (\<lambda>r. if Corral_id r = k then r\<lparr>Corral_peso_promedio_actual := p\<rparr> else r) rs)
        = (if j = k then map_option (\<lambda>r. r\<lparr>Corral_peso_promedio_actual := p\<rparr>)
                           (find (\<lambda>r. Corral_id r = j) rs)
           else find (\<lambda>r. Corral_id r = j) rs)" for p rs
    using find_map_replace [of Corral_id k "\<lambda>r. r\<lparr>Corral_peso_promedio_actual := p\<rparr>" j rs]
    by simp
  show ?thesis
    by (simp add: ocupacion_def Corral_findByPk_def actualizarPesoPromedioCorral_def Let_def
        * option.map_comp comp_def)
qed

section \<open>Operations whose calls all go through\<close>

lemma falla_None [simp]: "\<not> falla None"
  by (simp add: falla_def)

lemma despues_None [simp]: "despues None = None"
  by (simp add: despues_def)

lemma llamada_None [simp]: "llamada None db cont = cont None"
  by (simp add: llamada_def)

lemma reload_None [simp]: "reload None db r = Retorna r db"
  by (simp add: reload_def)

lemma registrarCambio_tx_None [simp]:
  "registrarCambio_tx env cerdo cambio db None cont
     = cont (fst (registrarCambio env cerdo cambio db))
            (snd (registrarCambio env cerdo cambio db)) None"
  by (simp add: registrarCambio_tx_def split: prod.split)

lemma actualizarPesoPromedioCorral_tx_None [simp]:
  "actualizarPesoPromedioCorral_tx corralId db None cont
     = cont (actualizarPesoPromedioCorral corralId db) None"
  by (simp add: actualizarPesoPromedioCorral_tx_def actualizarPesoPromedioCorral_def Let_def)

text \<open>
  With no failing call, an operation is a function of its arguments and the state: the
  checks in the order of the source, then the writes.
\<close>

lemma registrarPesaje_sin_fallo:
  "registrarPesaje env i nuevoPeso db =
     (case Cerdo_findByPk db i of
        None \<Rightarrow> (Inl (CerdoError NOT_FOUND), db)
      | Some cerdo \<Rightarrow>
          if menor_igual nuevoPeso (Fin 0) then (Inl (CerdoError INVALID_WEIGHT), db)
          else
            (case (if mayor (peso_actual cerdo) (Fin 0)
                   then validarPeso (peso_actual cerdo) nuevoPeso
                   else Inr True) of
               Inl e \<Rightarrow> (Inl e, db)
             | Inr _ \<Rightarrow>
                 let pesoAnterior = peso_actual cerdo;
                     cerdo1 = cerdo\<lparr>peso_actual := nuevoPeso,
                                    ultima_fecha_pesaje := Some (env_now env)\<rparr>;
                     db1 = Cerdo_save cerdo1 db;
                     (cerdo2, db2) = registrarCambio env cerdo1
                        \<lparr>fecha = env_now env, tipo = PESO, valorAnterior = Numero pesoAnterior,
                         valorNuevo = Numero nuevoPeso, cambio_observaciones = None\<rparr> db1;
                     db3 = actualizarPesoPromedioCorral (corral_id cerdo2) db2
                 in (Inr cerdo2, db3)))"
  by (simp add: registrarPesaje_def registrarPesaje_fallo_def registrarPesaje_try_def
      transaccion_def Let_def split: option.split sum.split prod.split)

lemma crearCerdo_sin_fallo:
  "crearCerdo env data db =
     (case Lote_findByPk db (lote_id data) of
        None \<Rightarrow> (Inl (CerdoError NOT_FOUND), db)
      | Some lote \<Rightarrow>
          (case find (\<lambda>k. Corral_id k = corral_id data \<and> Corral_lote_id k = lote_id data)
                  (corrales db) of
             None \<Rightarrow> (Inl (CerdoError NOT_FOUND), db)
           | Some corral \<Rightarrow>
               if Corral_ocupacion_actual corral \<ge> Corral_capacidad corral
               then (Inl (CerdoError CORRAL_FULL), db)
               else
                 (case find (\<lambda>c. arete c = arete data) (cerdos db) of
                    Some cerdoExistente \<Rightarrow> (Inl (CerdoError DUPLICATE_ARETE), db)
                  | None \<Rightarrow>
                      (case Cerdo_create env
                              (data\<lparr>estado := ACTIVO, peso_actual := peso_inicial data,
                                    ultima_fecha_pesaje := Some (env_now env)\<rparr>) db of
                         Inl e \<Rightarrow> (Inl e, db)
                       | Inr (cerdo, db1) \<Rightarrow>
                           let (cerdo1, db2) = registrarCambio env cerdo
                                 \<lparr>fecha = env_now env, tipo = PESO, valorAnterior = Numero (Fin 0),
                                  valorNuevo = Numero (peso_inicial data),
                                  cambio_observaciones = Some ''Peso inicial al crear cerdo''\<rparr> db1;
                               db3 = Corral_increment (Corral_id corral) 1 db2;
                               db4 = Lote_increment (Lote_id lote) 1 db3;
                               db5 = actualizarPesoPromedioCorral (Corral_id corral) db4
                           in (Inr cerdo1, db5)))))"
  by (simp add: crearCerdo_def crearCerdo_fallo_def crearCerdo_try_def
      transaccion_def Let_def split: option.split sum.split prod.split)

lemma cambiarEstado_sin_fallo:
  "cambiarEstado env i nuevoEstado observacion db =
     (case Cerdo_findByPk db i of
        None \<Rightarrow> (Inl (CerdoError NOT_FOUND), db)
      | Some cerdo \<Rightarrow>
          let estadoAnterior = estado cerdo;
              db1 = (if (nuevoEstado = MUERTO \<or> nuevoEstado = VENDIDO) \<and> estado cerdo = ACTIVO
                     then Lote_decrement (lote_id cerdo) 1
                            (Corral_decrement (corral_id cerdo) 1 db)
                     else db);
              (cerdo1, db2) = registrarCambio env cerdo
                 \<lparr>fecha = env_now env, tipo = ESTADO,
                  valorAnterior = Texto (EstadoCerdo_str estadoAnterior),
                  valorNuevo = Texto (EstadoCerdo_str nuevoEstado),
                  cambio_observaciones = observacion\<rparr> db1;
              cerdo2 = cerdo1\<lparr>estado := nuevoEstado\<rparr>;
              db3 = Cerdo_save cerdo2 db2
          in (Inr cerdo2, db3))"
  by (simp add: cambiarEstado_def cambiarEstado_fallo_def cambiarEstado_try_def
      transaccion_def Let_def split: option.split sum.split prod.split)

lemma transferirCerdo_sin_fallo:
  "transferirCerdo env idCerdo idNuevoCorral db =
     (case Cerdo_findByPk db idCerdo of
        None \<Rightarrow> (Inl (CerdoError NOT_FOUND), db)
      | Some cerdo \<Rightarrow>
          (case Corral_findByPk db idNuevoCorral of
             None \<Rightarrow> (Inl (CerdoError NOT_FOUND), db)
           | Some corralDestino \<Rightarrow>
               if Corral_ocupacion_actual corralDestino \<ge> Corral_capacidad corralDestino
               then (Inl (CerdoError CORRAL_FULL), db)
               else
                 let corralAnterior = corral_id cerdo;
                     db1 = (case Corral_findByPk db (corral_id cerdo) of
                              Some corralOrigen \<Rightarrow>
                                Corral_increment (Corral_id corralDestino) 1
                                  (Corral_decrement (Corral_id corralOrigen) 1 db)
                            | None \<Rightarrow> db);
                     (cerdo1, db2) = registrarCambio env cerdo
                        \<lparr>fecha = env_now env, tipo = CORRAL,
                         valorAnterior = Texto corralAnterior,
                         valorNuevo = Texto idNuevoCorral,
                         cambio_observaciones = None\<rparr> db1;
                     cerdo2 = cerdo1\<lparr>corral_id := idNuevoCorral\<rparr>;
                     db3 = Cerdo_save cerdo2 db2;
                     db4 = actualizarPesoPromedioCorral corralAnterior db3;
                     db5 = actualizarPesoPromedioCorral idNuevoCorral db4
                 in (Inr cerdo2, db5)))"
  by (simp add: transferirCerdo_def transferirCerdo_fallo_def transferirCerdo_try_def
      transaccion_def Let_def split: option.split sum.split prod.split)

section \<open>Weighing\<close>

lemma registrarPesaje_accepts:
  assumes c: "Cerdo_findByPk db i = Some cerdo" and pos: "\<not> menor_igual nuevoPeso (Fin 0)"
    and var: "mayor (peso_actual cerdo) (Fin 0)
                \<longrightarrow> \<not> mayor (dividir (absoluto (resta nuevoPeso (peso_actual cerdo)))
                                   (peso_actual cerdo)) (redondear (3 / 10))"
  shows "isOK (fst (registrarPesaje env i nuevoPeso db))
           \<and> peso_cerdo (snd (registrarPesaje env i nuevoPeso db)) i = Some nuevoPeso"
proof -
  have i: "Cerdo_id cerdo = i" using c by (rule Cerdo_findByPk_id)
  show ?thesis
    using c pos var i
    by (auto simp add: registrarPesaje_sin_fallo
        validarPeso_def registrarCambio_def Let_def Cerdo_findByPk_save isOK_def peso_cerdo_def
        Cerdo_findByPk_cong [of "actualizarPesoPromedioCorral _ _"])
qed

lemma registrarPesaje_rejects:
  assumes c: "Cerdo_findByPk db i = Some cerdo"
    and bad: "menor_igual nuevoPeso (Fin 0) \<or> (mayor (peso_actual cerdo) (Fin 0)
                \<and> mayor (dividir (absoluto (resta nuevoPeso (peso_actual cerdo)))
                                 (peso_actual cerdo)) (redondear (3 / 10)))"
  shows "registrarPesaje env i nuevoPeso db = (Inl (CerdoError INVALID_WEIGHT), db)"
  using c bad
  by (auto simp add: registrarPesaje_sin_fallo validarPeso_def Let_def)

text \<open>
  C8, as the code has it. For a pig that exists, \<open>registrarPesaje\<close> rejects a new weight
  that is \<open>\<le> 0\<close> with \<open>INVALID_WEIGHT\<close>. When the previous weight is \<open>> 0\<close>, it takes the
  difference of the two weights, its absolute value and the quotient by the previous
  weight in double arithmetic, each result rounded, and rejects the new weight with
  \<open>INVALID_WEIGHT\<close> exactly when that quotient is greater than the double nearest to
  \<open>3/10\<close>; the state (so the stored weight) is then as before. When the previous weight is
  not \<open>> 0\<close>, the variation is not checked. A weight that is not rejected is accepted: the
  call succeeds and the stored weight is the new one.
\<close>

theorem registrarPesaje_weight_check:
  assumes "Cerdo_findByPk db i = Some cerdo"
  shows "(menor_igual nuevoPeso (Fin 0) \<longrightarrow>
            registrarPesaje env i nuevoPeso db = (Inl (CerdoError INVALID_WEIGHT), db))
       \<and> (\<not> menor_igual nuevoPeso (Fin 0) \<and> mayor (peso_actual cerdo) (Fin 0) \<longrightarrow>
            (if mayor (dividir (absoluto (resta nuevoPeso (peso_actual cerdo)))
                              (peso_actual cerdo)) (redondear (3 / 10))
             then registrarPesaje env i nuevoPeso db = (Inl (CerdoError INVALID_WEIGHT), db)
             else isOK (fst (registrarPesaje env i nuevoPeso db))
                    \<and> peso_cerdo (snd (registrarPesaje env i nuevoPeso db)) i = Some nuevoPeso))
       \<and> (\<not> menor_igual nuevoPeso (Fin 0) \<and> \<not> mayor (peso_actual cerdo) (Fin 0) \<longrightarrow>
            isOK (fst (registrarPesaje env i nuevoPeso db))
              \<and> peso_cerdo (snd (registrarPesaje env i nuevoPeso db)) i = Some nuevoPeso)"
proof -
  let ?R = "registrarPesaje env i nuevoPeso db"
  let ?accepted = "isOK (fst ?R) \<and> peso_cerdo (snd ?R) i = Some nuevoPeso"
  let ?rejected = "?R = (Inl (CerdoError INVALID_WEIGHT), db)"
  let ?above = "mayor (dividir (absoluto (resta nuevoPeso (peso_actual cerdo)))
                              (peso_actual cerdo)) (redondear (3 / 10))"
  have 1: "menor_igual nuevoPeso (Fin 0) \<longrightarrow> ?rejected"
    using assms by (simp add: registrarPesaje_rejects)
  have 2: "\<not> menor_igual nuevoPeso (Fin 0) \<and> mayor (peso_actual cerdo) (Fin 0)
             \<longrightarrow> (if ?above then ?rejected else ?accepted)"
  proof (cases ?above)
    case True
    then show ?thesis
      using assms registrarPesaje_rejects [of db i cerdo nuevoPeso env] by simp
  next
    case False
    then show ?thesis
      using assms registrarPesaje_accepts [of db i cerdo nuevoPeso env] by simp
  qed
  have 3: "\<not> menor_igual nuevoPeso (Fin 0) \<and> \<not> mayor (peso_actual cerdo) (Fin 0) \<longrightarrow> ?accepted"
    using assms registrarPesaje_accepts [of db i cerdo nuevoPeso env] by simp
  from 1 2 3 show ?thesis by blast
qed

theorem registrarPesaje_weight_check_witness:
  "Cerdo_findByPk granja ''c-1'' = Some (cerdo_de ''c-1'' ''T-000001'' ''L1'' ''A'' 20 ACTIVO)
   \<and> registrarPesaje env0 ''c-1'' (Fin 0) granja = (Inl (CerdoError INVALID_WEIGHT), granja)
   \<and> registrarPesaje env0 ''c-1'' (Fin 40) granja = (Inl (CerdoError INVALID_WEIGHT), granja)
   \<and> isOK (fst (registrarPesaje env0 ''c-1'' (Fin 24) granja))
   \<and> peso_cerdo (snd (registrarPesaje env0 ''c-1'' (Fin 24) granja)) ''c-1'' = Some (Fin 24)
   \<and> Cerdo_findByPk granja ''c-5'' = Some (cerdo_de ''c-5'' ''T-000005'' ''L2'' ''X'' 0 ACTIVO)
   \<and> isOK (fst (registrarPesaje env0 ''c-5'' (Fin 12) granja))
   \<and> peso_cerdo (snd (registrarPesaje env0 ''c-5'' (Fin 12) granja)) ''c-5'' = Some (Fin 12)"
proof -
  have p1: "peso_actual (cerdo_de ''c-1'' ''T-000001'' ''L1'' ''A'' 20 ACTIVO) = Fin 20"
    and p5: "peso_actual (cerdo_de ''c-5'' ''T-000005'' ''L2'' ''X'' 0 ACTIVO) = Fin 0"
    by (simp_all add: cerdo_de_def)
  have v40: "mayor (dividir (absoluto (resta (Fin 40) (Fin 20))) (Fin 20)) (redondear (3 / 10))"
    by code_simp
  have v24: "\<not> mayor (dividir (absoluto (resta (Fin 24) (Fin 20))) (Fin 20)) (redondear (3 / 10))"
    by code_simp
  show ?thesis
    using granja_c1 granja_c5
      registrarPesaje_weight_check [OF granja_c1, of "Fin 0" env0]
      registrarPesaje_weight_check [OF granja_c1, of "Fin 40" env0]
      registrarPesaje_weight_check [OF granja_c1, of "Fin 24" env0]
      registrarPesaje_weight_check [OF granja_c5, of "Fin 12" env0]
    by (simp add: p1 p5 v40 v24)
qed

text \<open>
  C8 as stated fails. The pig \<open>p-1\<close> weighs 10.7 and the new weight is 7.489999999999999,
  both doubles. Over the rationals the variation of these two doubles is above \<open>3/10\<close>,
  so the claim has the weight rejected; in doubles the quotient comes out as the double
  nearest to \<open>3/10\<close> itself, which is not greater than the limit, and the code accepts the
  weight and stores it.
\<close>

theorem registrarPesaje_weight_check_counterexample:
  "redondear (107 / 10) = Fin peso_10_7
   \<and> redondear (7489999999999999 / 1000000000000000) = Fin peso_7_49
   \<and> peso_cerdo pesaje_db ''p-1'' = Some (Fin peso_10_7)
   \<and> 0 < peso_10_7 \<and> 0 < peso_7_49
   \<and> \<not> \<bar>peso_7_49 - peso_10_7\<bar> / peso_10_7 \<le> 3 / 10
   \<and> isOK (fst (registrarPesaje env1 ''p-1'' (Fin peso_7_49) pesaje_db))
   \<and> peso_cerdo (snd (registrarPesaje env1 ''p-1'' (Fin peso_7_49) pesaje_db)) ''p-1''
        = Some (Fin peso_7_49)"
  by code_simp

section \<open>Life-state changes\<close>

lemma cambiarEstado_found:
  assumes c: "Cerdo_findByPk db i = Some cerdo"
  shows "isOK (fst (cambiarEstado env i nuevoEstado observacion db))
           \<and> estado_cerdo (snd (cambiarEstado env i nuevoEstado observacion db)) i
               = Some nuevoEstado"
proof -
  have i: "Cerdo_id cerdo = i" using c by (rule Cerdo_findByPk_id)
  have c': "Cerdo_findByPk (Lote_decrement l 1 (Corral_decrement k 1 db)) i = Some cerdo" for l k
    using c by (simp add: Cerdo_findByPk_def Lote_decrement_def Corral_decrement_def)
  show ?thesis
    using c i c'
    by (auto simp add: cambiarEstado_sin_fallo
        registrarCambio_def Let_def Cerdo_findByPk_save isOK_def estado_cerdo_def)
qed

lemma cambiarEstado_missing:
  "Cerdo_findByPk db i = None \<Longrightarrow>
     cambiarEstado env i nuevoEstado observacion db = (Inl (CerdoError NOT_FOUND), db)"
  by (simp add: cambiarEstado_sin_fallo)

lemma cambiarEstado_decrements:
  assumes c: "Cerdo_findByPk db i = Some cerdo"
    and a: "estado cerdo = ACTIVO" and n: "nuevoEstado = VENDIDO \<or> nuevoEstado = MUERTO"
  shows "ocupacion (snd (cambiarEstado env i nuevoEstado observacion db)) (corral_id cerdo)
           = map_option (\<lambda>x. x - 1) (ocupacion db (corral_id cerdo))"
    and "cantidad_actual (snd (cambiarEstado env i nuevoEstado observacion db)) (lote_id cerdo)
           = map_option (\<lambda>x. x - 1) (cantidad_actual db (lote_id cerdo))"
  using c a n
  by (auto simp add: cambiarEstado_sin_fallo
        registrarCambio_def Let_def Lote_decrement_def Corral_decrement_def
        ocupacion_Corral_increment cantidad_Lote_increment
        ocupacion_cong [of "Cerdo_save _ _"] ocupacion_cong [of "Lote_increment _ _ _"]
        cantidad_cong [of "Cerdo_save _ _"] cantidad_cong [of "Corral_increment _ _ _"])

lemma cambiarEstado_keeps_counters:
  assumes c: "Cerdo_findByPk db i = Some cerdo"
    and a: "estado cerdo \<noteq> ACTIVO \<or> (nuevoEstado \<noteq> VENDIDO \<and> nuevoEstado \<noteq> MUERTO)"
  shows "corrales (snd (cambiarEstado env i nuevoEstado observacion db)) = corrales db
          \<and> lotes (snd (cambiarEstado env i nuevoEstado observacion db)) = lotes db"
  using c a
  by (auto simp add: cambiarEstado_sin_fallo
        registrarCambio_def Let_def)

text \<open>
  C2, as the code has it. \<open>cambiarEstado\<close> checks no transition: for a pig that exists it
  succeeds for every pair of current and requested state and stores the requested state;
  its only failure is \<open>NOT_FOUND\<close> for an unknown pig, with the state unchanged.
\<close>

theorem cambiarEstado_any_transition:
  "(Cerdo_findByPk db i = None \<longrightarrow>
      cambiarEstado env i nuevoEstado observacion db = (Inl (CerdoError NOT_FOUND), db))
   \<and> (Cerdo_findByPk db i \<noteq> None \<longrightarrow>
        isOK (fst (cambiarEstado env i nuevoEstado observacion db))
        \<and> estado_cerdo (snd (cambiarEstado env i nuevoEstado observacion db)) i
            = Some nuevoEstado)"
  using cambiarEstado_missing [of db i env nuevoEstado observacion]
    cambiarEstado_found [of db i _ env nuevoEstado observacion]
  by auto

theorem cambiarEstado_any_transition_witness:
  "Cerdo_findByPk granja ''c-0'' = None
   \<and> cambiarEstado env0 ''c-0'' VENDIDO None granja = (Inl (CerdoError NOT_FOUND), granja)
   \<and> Cerdo_findByPk granja ''c-4'' \<noteq> None
   \<and> isOK (fst (cambiarEstado env0 ''c-4'' ENFERMO None granja))
   \<and> estado_cerdo (snd (cambiarEstado env0 ''c-4'' ENFERMO None granja)) ''c-4'' = Some ENFERMO"
proof -
  have a: "Cerdo_findByPk granja ''c-0'' = None"
    by (simp add: Cerdo_findByPk_def fixture_defs)
  have b: "Cerdo_findByPk granja ''c-4'' \<noteq> None"
    by (simp add: granja_c4)
  show ?thesis
    using a b
      cambiarEstado_any_transition [of granja "''c-0''" env0 VENDIDO None]
      cambiarEstado_any_transition [of granja "''c-4''" env0 ENFERMO None]
    by simp
qed

text \<open>
  C2 as stated fails: the pig \<open>c-3\<close> is dead, and the transition from \<open>MUERTO\<close> to
  \<open>ACTIVO\<close>, which the claim's table does not list, succeeds and is stored.
\<close>

theorem cambiarEstado_unlisted_transition_counterexample:
  "estado_cerdo granja ''c-3'' = Some MUERTO
   \<and> isOK (fst (cambiarEstado env0 ''c-3'' ACTIVO None granja))
   \<and> estado_cerdo (snd (cambiarEstado env0 ''c-3'' ACTIVO None granja)) ''c-3'' = Some ACTIVO"
  by code_simp

text \<open>
  C3, as the code has it. For a pig whose state is \<open>ACTIVO\<close>, \<open>cambiarEstado\<close> to
  \<open>VENDIDO\<close> or \<open>MUERTO\<close> succeeds and lowers the stored occupancy of the pig's pen by 1
  and the stored live count of its lot by 1. For a pig whose state already is \<open>VENDIDO\<close>
  or \<open>MUERTO\<close>, a call changes no pen and no lot, so repeating the call does not
  decrement again.
\<close>

theorem cambiarEstado_counters:
  assumes "Cerdo_findByPk db i = Some cerdo"
  shows "(estado cerdo = ACTIVO \<and> (nuevoEstado = VENDIDO \<or> nuevoEstado = MUERTO) \<longrightarrow>
            isOK (fst (cambiarEstado env i nuevoEstado observacion db))
            \<and> ocupacion (snd (cambiarEstado env i nuevoEstado observacion db)) (corral_id cerdo)
                = map_option (\<lambda>n. n - 1) (ocupacion db (corral_id cerdo))
            \<and> cantidad_actual (snd (cambiarEstado env i nuevoEstado observacion db)) (lote_id cerdo)
                = map_option (\<lambda>n. n - 1) (cantidad_actual db (lote_id cerdo)))
       \<and> (estado cerdo = VENDIDO \<or> estado cerdo = MUERTO \<longrightarrow>
            corrales (snd (cambiarEstado env i nuevoEstado observacion db)) = corrales db
            \<and> lotes (snd (cambiarEstado env i nuevoEstado observacion db)) = lotes db)"
proof -
  have 1: "estado cerdo = ACTIVO \<and> (nuevoEstado = VENDIDO \<or> nuevoEstado = MUERTO) \<longrightarrow>
            isOK (fst (cambiarEstado env i nuevoEstado observacion db))
            \<and> ocupacion (snd (cambiarEstado env i nuevoEstado observacion db)) (corral_id cerdo)
                = map_option (\<lambda>n. n - 1) (ocupacion db (corral_id cerdo))
            \<and> cantidad_actual (snd (cambiarEstado env i nuevoEstado observacion db)) (lote_id cerdo)
                = map_option (\<lambda>n. n - 1) (cantidad_actual db (lote_id cerdo))"
    using cambiarEstado_found [OF assms] cambiarEstado_decrements [OF assms] by blast
  have 2: "estado cerdo = VENDIDO \<or> estado cerdo = MUERTO \<longrightarrow>
            corrales (snd (cambiarEstado env i nuevoEstado observacion db)) = corrales db
            \<and> lotes (snd (cambiarEstado env i nuevoEstado observacion db)) = lotes db"
    using cambiarEstado_keeps_counters [OF assms, of nuevoEstado env observacion] by auto
  from 1 2 show ?thesis by blast
qed

theorem cambiarEstado_counters_witness:
  "Cerdo_findByPk granja ''c-1'' = Some (cerdo_de ''c-1'' ''T-000001'' ''L1'' ''A'' 20 ACTIVO)
   \<and> isOK (fst (cambiarEstado env0 ''c-1'' VENDIDO None granja))
   \<and> ocupacion granja ''A'' = Some 2
   \<and> ocupacion (snd (cambiarEstado env0 ''c-1'' VENDIDO None granja)) ''A'' = Some 1
   \<and> cantidad_actual granja ''L1'' = Some 2
   \<and> cantidad_actual (snd (cambiarEstado env0 ''c-1'' VENDIDO None granja)) ''L1'' = Some 1
   \<and> Cerdo_findByPk granja ''c-3'' = Some (cerdo_de ''c-3'' ''T-000003'' ''L1'' ''A'' 24 MUERTO)
   \<and> corrales (snd (cambiarEstado env0 ''c-3'' MUERTO None granja)) = corrales granja
   \<and> lotes (snd (cambiarEstado env0 ''c-3'' MUERTO None granja)) = lotes granja"
proof -
  have o: "ocupacion granja ''A'' = Some 2" and q: "cantidad_actual granja ''L1'' = Some 2"
    by (simp_all add: ocupacion_def cantidad_actual_def Corral_findByPk_def Lote_findByPk_def
        fixture_defs)
  show ?thesis
    using granja_c1 granja_c3 o q
      cambiarEstado_counters [OF granja_c1, of VENDIDO env0 None]
      cambiarEstado_counters [OF granja_c3, of MUERTO env0 None]
    by (simp add: cerdo_de_def)
qed

text \<open>
  C3 as stated fails twice. The sick pig \<open>c-2\<close> dies: the call succeeds, and pen \<open>A\<close>
  and lot \<open>L1\<close> keep their counts of 2. The active pig \<open>c-1\<close> dies, is set back to
  \<open>ACTIVO\<close> and dies again: every call succeeds, and the occupancy of pen \<open>A\<close> goes
  from 2 to 0 on account of one pig.
\<close>

theorem cambiarEstado_counters_counterexample:
  "estado_cerdo granja ''c-2'' = Some ENFERMO
   \<and> ocupacion granja ''A'' = Some 2 \<and> cantidad_actual granja ''L1'' = Some 2
   \<and> isOK (fst (cambiarEstado env0 ''c-2'' MUERTO None granja))
   \<and> ocupacion (snd (cambiarEstado env0 ''c-2'' MUERTO None granja)) ''A'' = Some 2
   \<and> cantidad_actual (snd (cambiarEstado env0 ''c-2'' MUERTO None granja)) ''L1'' = Some 2
   \<and> estado_cerdo granja ''c-1'' = Some ACTIVO
   \<and> ocupacion (snd (cambiarEstado env0 ''c-1'' MUERTO None
        (snd (cambiarEstado env0 ''c-1'' ACTIVO None
          (snd (cambiarEstado env0 ''c-1'' MUERTO None granja)))))) ''A'' = Some 0
   \<and> cantidad_actual (snd (cambiarEstado env0 ''c-1'' MUERTO None
        (snd (cambiarEstado env0 ''c-1'' ACTIVO None
          (snd (cambiarEstado env0 ''c-1'' MUERTO None granja)))))) ''L1'' = Some 0"
  by code_simp

section \<open>Transfers\<close>

lemma transferirCerdo_ok:
  assumes c: "Cerdo_findByPk db i = Some cerdo"
    and d: "Corral_findByPk db k = Some destino"
    and free: "Corral_ocupacion_actual destino < Corral_capacidad destino"
  shows "isOK (fst (transferirCerdo env i k db))
           \<and> corral_cerdo (snd (transferirCerdo env i k db)) i = Some k"
proof -
  have i: "Cerdo_id cerdo = i" using c by (rule Cerdo_findByPk_id)
  have c': "Cerdo_findByPk (Corral_increment a 1 (Corral_decrement b 1 db)) i = Some cerdo" for a b
    using c by (simp add: Cerdo_findByPk_def Corral_decrement_def)
  show ?thesis
    using c d free i c'
    by (auto simp add: transferirCerdo_sin_fallo
        registrarCambio_def Let_def Cerdo_findByPk_save isOK_def corral_cerdo_def
        Cerdo_findByPk_cong [of "actualizarPesoPromedioCorral _ _"] split: option.splits)
qed

lemma transferirCerdo_fails:
  assumes c: "Cerdo_findByPk db i = Some cerdo"
    and d: "case Corral_findByPk db k of None \<Rightarrow> True
            | Some destino \<Rightarrow> Corral_capacidad destino \<le> Corral_ocupacion_actual destino"
  shows "transferirCerdo env i k db
           = (Inl (CerdoError (if Corral_findByPk db k = None then NOT_FOUND else CORRAL_FULL)), db)"
  using c d
  by (auto simp add: transferirCerdo_sin_fallo
      split: option.splits)

lemma transferirCerdo_occupancy:
  assumes c: "Cerdo_findByPk db i = Some cerdo"
    and d: "Corral_findByPk db k = Some destino"
    and free: "Corral_ocupacion_actual destino < Corral_capacidad destino"
    and o: "Corral_findByPk db (corral_id cerdo) = Some origen"
    and ne: "corral_id cerdo \<noteq> k"
  shows "ocupacion (snd (transferirCerdo env i k db)) (corral_id cerdo)
           = Some (Corral_ocupacion_actual origen - 1)
         \<and> ocupacion (snd (transferirCerdo env i k db)) k
           = Some (Corral_ocupacion_actual destino + 1)"
  using c d free o ne Corral_findByPk_id [OF d] Corral_findByPk_id [OF o]
  by (auto simp add: transferirCerdo_sin_fallo
        registrarCambio_def Let_def Corral_decrement_def
        ocupacion_actualizarPesoPromedioCorral ocupacion_Corral_increment
        ocupacion_cong [of "Cerdo_save _ _"] ocupacion_def [of db])

text \<open>
  C4. The code does not compare the lot of the target pen with the lot of the pig. Pig
  \<open>c-1\<close> of lot \<open>L1\<close> is moved to pen \<open>X\<close> of lot \<open>L2\<close>: the call succeeds, the pig's pen
  is \<open>X\<close>, the origin pen \<open>A\<close> goes from 2 to 1 and pen \<open>X\<close> from 1 to 2.
\<close>

theorem transferirCerdo_other_lot:
  "map_option lote_id (Cerdo_findByPk granja ''c-1'') = Some ''L1''
   \<and> map_option Corral_lote_id (Corral_findByPk granja ''X'') = Some ''L2''
   \<and> corral_cerdo granja ''c-1'' = Some ''A''
   \<and> ocupacion granja ''A'' = Some 2 \<and> ocupacion granja ''X'' = Some 1
   \<and> isOK (fst (transferirCerdo env0 ''c-1'' ''X'' granja))
   \<and> corral_cerdo (snd (transferirCerdo env0 ''c-1'' ''X'' granja)) ''c-1'' = Some ''X''
   \<and> ocupacion (snd (transferirCerdo env0 ''c-1'' ''X'' granja)) ''A'' = Some 1
   \<and> ocupacion (snd (transferirCerdo env0 ''c-1'' ''X'' granja)) ''X'' = Some 2"
  by code_simp

section \<open>Pigs that are sold or dead\<close>

text \<open>
  C1, as the code has it. No operation looks at the life-state before acting and there
  is no error for an invalid transition. For a pig that is \<open>VENDIDO\<close> or \<open>MUERTO\<close>:
  \<open>cambiarEstado\<close> succeeds; \<open>registrarPesaje\<close> succeeds exactly when the new weight
  passes the weight checks of the code (it is not \<open>\<le> 0\<close> and, when the previous weight is
  \<open>> 0\<close>, the variation computed in doubles is not greater than the double nearest to
  \<open>3/10\<close>), and otherwise fails with \<open>INVALID_WEIGHT\<close>; \<open>transferirCerdo\<close> fails with
  \<open>NOT_FOUND\<close> when the target pen does not exist, and for a target pen of the pig's own
  lot it succeeds when the occupancy of the pen is below its capacity and fails with
  \<open>CORRAL_FULL\<close> when it is not. A call that fails leaves the state as it was.
\<close>

theorem terminal_pig_operations:
  assumes "Cerdo_findByPk db i = Some cerdo"
    and "estado cerdo = VENDIDO \<or> estado cerdo = MUERTO"
  shows "isOK (fst (cambiarEstado env i nuevoEstado observacion db))
       \<and> (isOK (fst (registrarPesaje env i nuevoPeso db))
            = (\<not> menor_igual nuevoPeso (Fin 0)
               \<and> (mayor (peso_actual cerdo) (Fin 0)
                    \<longrightarrow> \<not> mayor (dividir (absoluto (resta nuevoPeso (peso_actual cerdo)))
                                       (peso_actual cerdo)) (redondear (3 / 10)))))
       \<and> (\<not> isOK (fst (registrarPesaje env i nuevoPeso db))
            \<longrightarrow> registrarPesaje env i nuevoPeso db = (Inl (CerdoError INVALID_WEIGHT), db))
       \<and> (case Corral_findByPk db k of
            None \<Rightarrow> transferirCerdo env i k db = (Inl (CerdoError NOT_FOUND), db)
          | Some destino \<Rightarrow>
              Corral_lote_id destino = lote_id cerdo \<longrightarrow>
                (if Corral_ocupacion_actual destino < Corral_capacidad destino
                 then isOK (fst (transferirCerdo env i k db))
                 else transferirCerdo env i k db = (Inl (CerdoError CORRAL_FULL), db)))
       \<and> (\<not> isOK (fst (transferirCerdo env i k db)) \<longrightarrow> snd (transferirCerdo env i k db) = db)"
proof -
  let ?W = "\<not> menor_igual nuevoPeso (Fin 0)
               \<and> (mayor (peso_actual cerdo) (Fin 0)
                    \<longrightarrow> \<not> mayor (dividir (absoluto (resta nuevoPeso (peso_actual cerdo)))
                                       (peso_actual cerdo)) (redondear (3 / 10)))"
  let ?T = "\<exists>destino. Corral_findByPk db k = Some destino
                 \<and> Corral_ocupacion_actual destino < Corral_capacidad destino"
  have 1: "isOK (fst (cambiarEstado env i nuevoEstado observacion db))"
    using cambiarEstado_found [OF assms(1)] by simp
  have w1: "?W \<Longrightarrow> isOK (fst (registrarPesaje env i nuevoPeso db))"
    using registrarPesaje_accepts [OF assms(1), of nuevoPeso env] by simp
  have w2: "\<not> ?W \<Longrightarrow> registrarPesaje env i nuevoPeso db = (Inl (CerdoError INVALID_WEIGHT), db)"
    using registrarPesaje_rejects [OF assms(1), of nuevoPeso env] by force
  have t1: "?T \<Longrightarrow> isOK (fst (transferirCerdo env i k db))"
    using transferirCerdo_ok [OF assms(1), of k _ env] by auto
  have t2: "\<not> ?T \<Longrightarrow> transferirCerdo env i k db
                  = (Inl (CerdoError (if Corral_findByPk db k = None then NOT_FOUND
                                      else CORRAL_FULL)), db)"
    using transferirCerdo_fails [OF assms(1), of k env] by (auto split: option.splits)
  have 2: "isOK (fst (registrarPesaje env i nuevoPeso db)) = ?W"
    using w1 w2 by (cases ?W) (auto simp: isOK_def)
  have 3: "\<not> isOK (fst (registrarPesaje env i nuevoPeso db))
            \<longrightarrow> registrarPesaje env i nuevoPeso db = (Inl (CerdoError INVALID_WEIGHT), db)"
    using w1 w2 by blast
  have 4: "case Corral_findByPk db k of
            None \<Rightarrow> transferirCerdo env i k db = (Inl (CerdoError NOT_FOUND), db)
          | Some destino \<Rightarrow>
              Corral_lote_id destino = lote_id cerdo \<longrightarrow>
                (if Corral_ocupacion_actual destino < Corral_capacidad destino
                 then isOK (fst (transferirCerdo env i k db))
                 else transferirCerdo env i k db = (Inl (CerdoError CORRAL_FULL), db))"
    using t1 t2 by (auto split: option.splits)
  have 5: "\<not> isOK (fst (transferirCerdo env i k db)) \<longrightarrow> snd (transferirCerdo env i k db) = db"
    using t1 t2 by (cases ?T) auto
  from 1 2 3 4 5 show ?thesis by blast
qed

theorem terminal_pig_operations_witness:
  "Cerdo_findByPk granja ''c-4'' = Some (cerdo_de ''c-4'' ''T-000004'' ''L1'' ''A'' 30 VENDIDO)
   \<and> estado (cerdo_de ''c-4'' ''T-000004'' ''L1'' ''A'' 30 VENDIDO) = VENDIDO
   \<and> isOK (fst (cambiarEstado env0 ''c-4'' ACTIVO None granja))
   \<and> isOK (fst (registrarPesaje env0 ''c-4'' (Fin 33) granja))
   \<and> registrarPesaje env0 ''c-4'' (Fin 50) granja = (Inl (CerdoError INVALID_WEIGHT), granja)
   \<and> Corral_findByPk granja ''B'' = Some (corral_de ''B'' ''B-01'' ''L1'' 10 0 0)
   \<and> Corral_lote_id (corral_de ''B'' ''B-01'' ''L1'' 10 0 0)
        = lote_id (cerdo_de ''c-4'' ''T-000004'' ''L1'' ''A'' 30 VENDIDO)
   \<and> isOK (fst (transferirCerdo env0 ''c-4'' ''B'' granja))
   \<and> Corral_findByPk granja ''Z'' = None
   \<and> transferirCerdo env0 ''c-4'' ''Z'' granja = (Inl (CerdoError NOT_FOUND), granja)"
proof -
  have e1: "estado (cerdo_de ''c-4'' ''T-000004'' ''L1'' ''A'' 30 VENDIDO) = VENDIDO"
    by (simp add: cerdo_de_def)
  then have e: "estado (cerdo_de ''c-4'' ''T-000004'' ''L1'' ''A'' 30 VENDIDO) = VENDIDO
             \<or> estado (cerdo_de ''c-4'' ''T-000004'' ''L1'' ''A'' 30 VENDIDO) = MUERTO"
    by simp
  have p: "peso_actual (cerdo_de ''c-4'' ''T-000004'' ''L1'' ''A'' 30 VENDIDO) = Fin 30"
    by (simp add: cerdo_de_def)
  have b: "Corral_findByPk granja ''B'' = Some (corral_de ''B'' ''B-01'' ''L1'' 10 0 0)"
    and z: "Corral_findByPk granja ''Z'' = None"
    by (simp_all add: Corral_findByPk_def fixture_defs)
  have f: "Corral_ocupacion_actual (corral_de ''B'' ''B-01'' ''L1'' 10 0 0)
             < Corral_capacidad (corral_de ''B'' ''B-01'' ''L1'' 10 0 0)"
    and l: "Corral_lote_id (corral_de ''B'' ''B-01'' ''L1'' 10 0 0)
             = lote_id (cerdo_de ''c-4'' ''T-000004'' ''L1'' ''A'' 30 VENDIDO)"
    by (simp_all add: corral_de_def cerdo_de_def)
  have v33: "\<not> mayor (dividir (absoluto (resta (Fin 33) (Fin 30))) (Fin 30)) (redondear (3 / 10))"
    by code_simp
  have v50: "mayor (dividir (absoluto (resta (Fin 50) (Fin 30))) (Fin 30)) (redondear (3 / 10))"
    by code_simp
  show ?thesis
    using granja_c4 e1
      terminal_pig_operations [OF granja_c4 e, of env0 ACTIVO None "Fin 33" "''B''"]
      terminal_pig_operations [OF granja_c4 e, of env0 ACTIVO None "Fin 50" "''Z''"]
    by (simp add: p b z f l v33 v50)
qed

text \<open>
  C1 as stated fails. Pig \<open>c-3\<close> is dead, and each of the three operations succeeds on
  it and changes the state: the weight becomes 25, the life-state becomes \<open>ENFERMO\<close>,
  the pig moves to pen \<open>B\<close>, whose occupancy goes from 0 to 1 while that of pen \<open>A\<close> goes
  from 2 to 1.
\<close>

theorem terminal_pig_operations_counterexample:
  "estado_cerdo granja ''c-3'' = Some MUERTO
   \<and> isOK (fst (registrarPesaje env0 ''c-3'' (Fin 25) granja))
   \<and> peso_cerdo (snd (registrarPesaje env0 ''c-3'' (Fin 25) granja)) ''c-3'' = Some (Fin 25)
   \<and> isOK (fst (cambiarEstado env0 ''c-3'' ENFERMO None granja))
   \<and> estado_cerdo (snd (cambiarEstado env0 ''c-3'' ENFERMO None granja)) ''c-3'' = Some ENFERMO
   \<and> isOK (fst (transferirCerdo env0 ''c-3'' ''B'' granja))
   \<and> corral_cerdo (snd (transferirCerdo env0 ''c-3'' ''B'' granja)) ''c-3'' = Some ''B''
   \<and> ocupacion (snd (transferirCerdo env0 ''c-3'' ''B'' granja)) ''A'' = Some 1
   \<and> ocupacion (snd (transferirCerdo env0 ''c-3'' ''B'' granja)) ''B'' = Some 1"
  by code_simp

section \<open>Admission\<close>

lemma crearCerdo_ok_iff:
  "isOK (fst (crearCerdo env data db))
     = (Lote_findByPk db (lote_id data) \<noteq> None
        \<and> (\<exists>corral. find (\<lambda>k. Corral_id k = corral_id data \<and> Corral_lote_id k = lote_id data)
                        (corrales db) = Some corral
                     \<and> Corral_ocupacion_actual corral < Corral_capacidad corral)
        \<and> find (\<lambda>c. arete c = arete data) (cerdos db) = None
        \<and> Cerdo_findByPk db (env_uuid env) = None)"
  by (auto simp add: crearCerdo_sin_fallo Cerdo_create_def
      registrarCambio_def Let_def isOK_def split: option.splits)

lemma crearCerdo_not_ok:
  "\<not> isOK (fst (crearCerdo env data db)) \<Longrightarrow> snd (crearCerdo env data db) = db"
  by (auto simp add: crearCerdo_sin_fallo isOK_def Let_def
      split: option.splits if_splits sum.splits prod.splits)

text \<open>
  C5, as the code has it. \<open>crearCerdo\<close> never reads the status of the lot. It succeeds
  exactly when the lot exists (active or finalised), a pen with the given key and that
  lot exists with occupancy below capacity, no pig has the tag, and the key the store
  generates for the new row is unused. When it does not succeed, the state is as before:
  no pig is created and no counter changes.
\<close>

theorem crearCerdo_admission:
  "isOK (fst (crearCerdo env data db))
     = (Lote_findByPk db (lote_id data) \<noteq> None
        \<and> (\<exists>corral. find (\<lambda>k. Corral_id k = corral_id data \<and> Corral_lote_id k = lote_id data)
                        (corrales db) = Some corral
                     \<and> Corral_ocupacion_actual corral < Corral_capacidad corral)
        \<and> find (\<lambda>c. arete c = arete data) (cerdos db) = None
        \<and> Cerdo_findByPk db (env_uuid env) = None)
   \<and> (\<not> isOK (fst (crearCerdo env data db)) \<longrightarrow> snd (crearCerdo env data db) = db)"
  using crearCerdo_ok_iff [of env data db] crearCerdo_not_ok [of env data db] by blast

theorem crearCerdo_admission_witness:
  "isOK (fst (crearCerdo env0 (datos_cerdo ''T-000010'' ''L1'' ''B'' 20) granja))
   \<and> \<not> isOK (fst (crearCerdo env0 (datos_cerdo ''T-000010'' ''L2'' ''B'' 20) granja))
   \<and> snd (crearCerdo env0 (datos_cerdo ''T-000010'' ''L2'' ''B'' 20) granja) = granja"
proof -
  have a: "Lote_findByPk granja (lote_id (datos_cerdo ''T-000010'' ''L1'' ''B'' 20)) \<noteq> None
        \<and> (\<exists>corral. find (\<lambda>k. Corral_id k = corral_id (datos_cerdo ''T-000010'' ''L1'' ''B'' 20)
                              \<and> Corral_lote_id k = lote_id (datos_cerdo ''T-000010'' ''L1'' ''B'' 20))
                        (corrales granja) = Some corral
                     \<and> Corral_ocupacion_actual corral < Corral_capacidad corral)
        \<and> find (\<lambda>c. arete c = arete (datos_cerdo ''T-000010'' ''L1'' ''B'' 20)) (cerdos granja)
            = None
        \<and> Cerdo_findByPk granja (env_uuid env0) = None"
    by (simp add: Lote_findByPk_def Cerdo_findByPk_def fixture_defs env0_def)
  have b: "find (\<lambda>k. Corral_id k = corral_id (datos_cerdo ''T-000010'' ''L2'' ''B'' 20)
                              \<and> Corral_lote_id k = lote_id (datos_cerdo ''T-000010'' ''L2'' ''B'' 20))
                        (corrales granja) = None"
    by (simp add: fixture_defs)
  show ?thesis
    using a b
      crearCerdo_admission [of env0 "datos_cerdo ''T-000010'' ''L1'' ''B'' 20" granja]
      crearCerdo_admission [of env0 "datos_cerdo ''T-000010'' ''L2'' ''B'' 20" granja]
    by simp
qed

text \<open>
  C5 as stated fails. Lot \<open>L3\<close> is finalised, and a pig is admitted to its pen \<open>F\<close>: the
  call succeeds, the pig is stored as \<open>ACTIVO\<close>, and the occupancy of \<open>F\<close> and the live
  count of \<open>L3\<close> go from 0 to 1.
\<close>

theorem crearCerdo_finalised_lot_counterexample:
  "map_option Lote_estado (Lote_findByPk granja ''L3'') = Some FINALIZADO
   \<and> isOK (fst (crearCerdo env0 (datos_cerdo ''T-000010'' ''L3'' ''F'' 20) granja))
   \<and> estado_cerdo (snd (crearCerdo env0 (datos_cerdo ''T-000010'' ''L3'' ''F'' 20) granja)) ''c-9''
       = Some ACTIVO
   \<and> ocupacion granja ''F'' = Some 0
   \<and> ocupacion (snd (crearCerdo env0 (datos_cerdo ''T-000010'' ''L3'' ''F'' 20) granja)) ''F''
       = Some 1
   \<and> cantidad_actual granja ''L3'' = Some 0
   \<and> cantidad_actual (snd (crearCerdo env0 (datos_cerdo ''T-000010'' ''L3'' ''F'' 20) granja)) ''L3''
       = Some 1"
  by code_simp

section \<open>Failure and rollback\<close>

text \<open>
  A block that does not throw after the commit leaves nothing behind when it fails: the
  rollback discards whatever it had written.
\<close>

lemma transaccion_rollback:
  assumes "antes_del_commit (cuerpo (despues k))"
    and "fst (transaccion k db cuerpo) = Inl e"
  shows "snd (transaccion k db cuerpo) = db"
  using assms
  by (auto simp: transaccion_def antes_del_commit_def split: intento.splits if_splits)

lemma llamada_antes:
  "(\<And>k'. antes_del_commit (cont k')) \<Longrightarrow> antes_del_commit (llamada k db cont)"
  by (simp add: llamada_def antes_del_commit_def)

lemma registrarCambio_tx_antes:
  "(\<And>c d k'. antes_del_commit (cont c d k'))
     \<Longrightarrow> antes_del_commit (registrarCambio_tx env cerdo cambio db k cont)"
  by (auto simp add: registrarCambio_tx_def split: prod.splits intro!: llamada_antes)

lemma actualizarPesoPromedioCorral_tx_antes:
  "(\<And>d k'. antes_del_commit (cont d k'))
     \<Longrightarrow> antes_del_commit (actualizarPesoPromedioCorral_tx corralId db k cont)"
  by (auto simp add: actualizarPesoPromedioCorral_tx_def Let_def intro!: llamada_antes)

lemma antes_simps [simp]:
  "antes_del_commit (Lanza e db k)" "antes_del_commit (Retorna r db)"
  by (simp_all add: antes_del_commit_def)

lemma registrarPesaje_try_antes: "antes_del_commit (registrarPesaje_try env i w db k)"
  unfolding registrarPesaje_try_def
  by (auto simp add: Let_def split: option.splits sum.splits
      intro!: llamada_antes registrarCambio_tx_antes actualizarPesoPromedioCorral_tx_antes)

lemma cambiarEstado_try_antes: "antes_del_commit (cambiarEstado_try env i n obs db k)"
  unfolding cambiarEstado_try_def
  by (auto simp add: Let_def split: option.splits sum.splits
      intro!: llamada_antes registrarCambio_tx_antes actualizarPesoPromedioCorral_tx_antes)

lemma registrarPesaje_fallo_rollback:
  "fst (registrarPesaje_fallo k env i w db) = Inl e
     \<Longrightarrow> snd (registrarPesaje_fallo k env i w db) = db"
  unfolding registrarPesaje_fallo_def
  by (rule transaccion_rollback [OF registrarPesaje_try_antes])

lemma cambiarEstado_fallo_rollback:
  "fst (cambiarEstado_fallo k env i n obs db) = Inl e
     \<Longrightarrow> snd (cambiarEstado_fallo k env i n obs db) = db"
  unfolding cambiarEstado_fallo_def
  by (rule transaccion_rollback [OF cambiarEstado_try_antes])

lemma todo_o_nada_simps [simp]:
  "todo_o_nada (Lanza e db k) t0"
  "todo_o_nada (Retorna r db) (Retorna r db)"
  by (simp_all add: todo_o_nada_def)

lemma llamada_todo_o_nada:
  "(\<And>k'. todo_o_nada (cont k') (cont None))
     \<Longrightarrow> todo_o_nada (llamada k db cont) (llamada None db cont)"
  by (simp add: llamada_def)

lemma registrarCambio_tx_todo_o_nada:
  "(\<And>c d k'. todo_o_nada (cont c d k') (cont c d None))
     \<Longrightarrow> todo_o_nada (registrarCambio_tx env cerdo cambio db k cont)
                      (registrarCambio_tx env cerdo cambio db None cont)"
  unfolding registrarCambio_tx_def
  by (rule llamada_todo_o_nada) (simp split: prod.splits)

lemma actualizarPesoPromedioCorral_tx_todo_o_nada:
  "(\<And>d k'. todo_o_nada (cont d k') (cont d None))
     \<Longrightarrow> todo_o_nada (actualizarPesoPromedioCorral_tx corralId db k cont)
                      (actualizarPesoPromedioCorral_tx corralId db None cont)"
  unfolding actualizarPesoPromedioCorral_tx_def
  apply (rule llamada_todo_o_nada)
  apply (simp add: Let_def del: llamada_None)
  apply (intro impI llamada_todo_o_nada)
  apply simp
  done

lemma reload_todo_o_nada: "todo_o_nada (reload k db r) (reload None db r)"
  by (simp add: reload_def todo_o_nada_def)

lemma todo_o_nada_if:
  "(c \<Longrightarrow> todo_o_nada a a0) \<Longrightarrow> (\<not> c \<Longrightarrow> todo_o_nada b b0)
     \<Longrightarrow> todo_o_nada (if c then a else b) (if c then a0 else b0)"
  by simp

lemma todo_o_nada_option:
  "(x = None \<Longrightarrow> todo_o_nada a a0) \<Longrightarrow> (\<And>y. x = Some y \<Longrightarrow> todo_o_nada (f y) (f0 y))
     \<Longrightarrow> todo_o_nada (case x of None \<Rightarrow> a | Some y \<Rightarrow> f y)
                      (case x of None \<Rightarrow> a0 | Some y \<Rightarrow> f0 y)"
  by (cases x) simp_all

lemma todo_o_nada_sum:
  "(\<And>y. x = Inl y \<Longrightarrow> todo_o_nada (f y) (f0 y)) \<Longrightarrow> (\<And>y. x = Inr y \<Longrightarrow> todo_o_nada (g y) (g0 y))
     \<Longrightarrow> todo_o_nada (case x of Inl y \<Rightarrow> f y | Inr y \<Rightarrow> g y)
                      (case x of Inl y \<Rightarrow> f0 y | Inr y \<Rightarrow> g0 y)"
  by (cases x) simp_all

lemma todo_o_nada_prod:
  "(\<And>a b. p = (a, b) \<Longrightarrow> todo_o_nada (f a b) (f0 a b))
     \<Longrightarrow> todo_o_nada (case p of (a, b) \<Rightarrow> f a b) (case p of (a, b) \<Rightarrow> f0 a b)"
  by (cases p) simp

lemmas todo_o_nada_intros =
  llamada_todo_o_nada registrarCambio_tx_todo_o_nada actualizarPesoPromedioCorral_tx_todo_o_nada
  reload_todo_o_nada todo_o_nada_if todo_o_nada_option todo_o_nada_sum todo_o_nada_prod
  todo_o_nada_simps

lemma crearCerdo_try_todo_o_nada:
  "todo_o_nada (crearCerdo_try env data db k) (crearCerdo_try env data db None)"
  unfolding crearCerdo_try_def Let_def
  by (intro todo_o_nada_intros)

lemma transferirCerdo_try_todo_o_nada:
  "todo_o_nada (transferirCerdo_try env i j db k) (transferirCerdo_try env i j db None)"
  unfolding transferirCerdo_try_def Let_def
  by (intro todo_o_nada_intros)

lemma transaccion_todo_o_nada:
  assumes "\<And>k'. todo_o_nada (cuerpo k') (cuerpo None)"
    and "fst (transaccion k db cuerpo) = Inl e"
  shows "snd (transaccion k db cuerpo) = db
         \<or> (isOK (fst (transaccion None db cuerpo))
              \<and> snd (transaccion k db cuerpo) = snd (transaccion None db cuerpo))"
  using assms(2) assms(1) [of "despues k"]
  by (auto simp: transaccion_def todo_o_nada_def isOK_def split: intento.splits if_splits)

lemma crearCerdo_fallo_todo_o_nada:
  assumes "fst (crearCerdo_fallo k env data db) = Inl e"
  shows "snd (crearCerdo_fallo k env data db) = db
         \<or> (isOK (fst (crearCerdo env data db))
              \<and> snd (crearCerdo_fallo k env data db) = snd (crearCerdo env data db))"
  using assms
    transaccion_todo_o_nada [of "crearCerdo_try env data db" k db e,
      OF crearCerdo_try_todo_o_nada]
  by (simp add: crearCerdo_fallo_def crearCerdo_def)

lemma transferirCerdo_fallo_todo_o_nada:
  assumes "fst (transferirCerdo_fallo k env i j db) = Inl e"
  shows "snd (transferirCerdo_fallo k env i j db) = db
         \<or> (isOK (fst (transferirCerdo env i j db))
              \<and> snd (transferirCerdo_fallo k env i j db) = snd (transferirCerdo env i j db))"
  using assms
    transaccion_todo_o_nada [of "transferirCerdo_try env i j db" k db e,
      OF transferirCerdo_try_todo_o_nada]
  by (simp add: transferirCerdo_fallo_def transferirCerdo_def)

text \<open>
  The rollback has work to do. When the store fails at \<^verbatim>\<open>lote.increment\<close> in \<^verbatim>\<open>crearCerdo\<close>,
  the transaction has already inserted the pig and raised the occupancy of the pen; the
  caller gets an error and the state before the call.
\<close>

lemma crearCerdo_rolled_back:
  "(case crearCerdo_try env0 (datos_cerdo ''T-000010'' ''L1'' ''B'' 20) granja (Some 6) of
      Lanza e db k \<Rightarrow> e = Error \<and> estado_cerdo db ''c-9'' = Some ACTIVO
                       \<and> ocupacion db ''B'' = Some 1 \<and> cantidad_actual db ''L1'' = Some 2
    | _ \<Rightarrow> False)
   \<and> ocupacion granja ''B'' = Some 0
   \<and> crearCerdo_fallo (Some 7) env0 (datos_cerdo ''T-000010'' ''L1'' ''B'' 20) granja
       = (Inl Error, granja)"
  by code_simp

text \<open>
  C7. \<^verbatim>\<open>registrarPesaje\<close> and \<^verbatim>\<open>cambiarEstado\<close> commit as their last call, and whenever
  they return an error the state is the one before the call
  (\<open>registrarPesaje_fallo_rollback\<close>, \<open>cambiarEstado_fallo_rollback\<close>). \<^verbatim>\<open>crearCerdo\<close> and
  \<^verbatim>\<open>transferirCerdo\<close> call \<^verbatim>\<open>cerdo.reload\<close> after the commit, inside \<^verbatim>\<open>try\<close>. When the store
  fails at that call, the caller gets an error and every write of the operation is
  committed. On the sample farm: the commit is the call after 10 calls in
  \<open>crearCerdo\<close> and after 11 in \<open>transferirCerdo\<close>; a failure there is rolled back, a
  failure at the next call, the reload, is not. After the failed \<open>crearCerdo\<close> the pig
  \<open>c-9\<close> exists, pen \<open>B\<close> has gone from 0 to 1 and lot \<open>L1\<close> from 2 to 3; after the failed
  \<open>transferirCerdo\<close> the pig \<open>c-1\<close> is in pen \<open>B\<close>, pen \<open>A\<close> has gone from 2 to 1 and pen
  \<open>B\<close> from 0 to 1.
\<close>

theorem error_after_commit_keeps_writes:
  "estado_cerdo granja ''c-9'' = None
   \<and> ocupacion granja ''A'' = Some 2 \<and> ocupacion granja ''B'' = Some 0
   \<and> cantidad_actual granja ''L1'' = Some 2
   \<and> crearCerdo_fallo (Some 10) env0 (datos_cerdo ''T-000010'' ''L1'' ''B'' 20) granja
       = (Inl Error, granja)
   \<and> fst (crearCerdo_fallo (Some 11) env0 (datos_cerdo ''T-000010'' ''L1'' ''B'' 20) granja)
       = Inl Error
   \<and> estado_cerdo (snd (crearCerdo_fallo (Some 11) env0
         (datos_cerdo ''T-000010'' ''L1'' ''B'' 20) granja)) ''c-9'' = Some ACTIVO
   \<and> ocupacion (snd (crearCerdo_fallo (Some 11) env0
         (datos_cerdo ''T-000010'' ''L1'' ''B'' 20) granja)) ''B'' = Some 1
   \<and> cantidad_actual (snd (crearCerdo_fallo (Some 11) env0
         (datos_cerdo ''T-000010'' ''L1'' ''B'' 20) granja)) ''L1'' = Some 3
   \<and> transferirCerdo_fallo (Some 11) env0 ''c-1'' ''B'' granja = (Inl Error, granja)
   \<and> fst (transferirCerdo_fallo (Some 12) env0 ''c-1'' ''B'' granja) = Inl Error
   \<and> corral_cerdo (snd (transferirCerdo_fallo (Some 12) env0 ''c-1'' ''B'' granja)) ''c-1''
        = Some ''B''
   \<and> ocupacion (snd (transferirCerdo_fallo (Some 12) env0 ''c-1'' ''B'' granja)) ''A'' = Some 1
   \<and> ocupacion (snd (transferirCerdo_fallo (Some 12) env0 ''c-1'' ''B'' granja)) ''B'' = Some 1"
  by code_simp

section \<open>Average weight of a pen\<close>

text \<open>
  What the recomputation does: with an active pig in the pen, the stored average becomes
  the sum of the current weights of the active pigs of the pen, added up in doubles from
  0 in the order of the rows, divided by their number; with none, nothing is written.
\<close>

lemma actualizarPesoPromedioCorral_mean:
  assumes "Corral_findByPk db k \<noteq> None" and "cerdos_activos db k \<noteq> []"
  shows "peso_promedio (actualizarPesoPromedioCorral k db) k
           = Some (dividir (foldl (\<lambda>sum c. suma sum (peso_actual c)) (Fin 0)
                              (cerdos_activos db k))
                           (Fin (of_nat (length (cerdos_activos db k)))))"
proof -
  have *: "find (\<lambda>r. Corral_id r = k)
          (map (\<lambda>r. if Corral_id r = k then r\<lparr>Corral_peso_promedio_actual := p\<rparr> else r) rs)
        = map_option (\<lambda>r. r\<lparr>Corral_peso_promedio_actual := p\<rparr>) (find (\<lambda>r. Corral_id r = k) rs)"
    for p rs
    using find_map_replace [of Corral_id k "\<lambda>r. r\<lparr>Corral_peso_promedio_actual := p\<rparr>" k rs]
    by simp
  show ?thesis
    using assms
    by (auto simp add: peso_promedio_def Corral_findByPk_def actualizarPesoPromedioCorral_def
        cerdos_activos_def Let_def * option.map_comp comp_def)
qed

lemma actualizarPesoPromedioCorral_empty:
  "cerdos_activos db k = [] \<Longrightarrow> actualizarPesoPromedioCorral k db = db"
  by (simp add: actualizarPesoPromedioCorral_def cerdos_activos_def)

text \<open>
  C6. \<open>actualizarPesoPromedioCorral\<close> writes the average only when the pen has an active
  pig, and \<open>cambiarEstado\<close> does not call it. Pen \<open>A\<close> has one active pig, \<open>c-1\<close>, and
  the stored average 20. After \<open>c-1\<close> is moved to pen \<open>B\<close>, and likewise after \<open>c-1\<close>
  dies, pen \<open>A\<close> has no active pig and its stored average is still 20, not 0.
\<close>

theorem peso_promedio_stale_after_last_active_pig:
  "cerdos_activos granja ''A'' = [cerdo_de ''c-1'' ''T-000001'' ''L1'' ''A'' 20 ACTIVO]
   \<and> peso_promedio granja ''A'' = Some (Fin 20)
   \<and> isOK (fst (transferirCerdo env0 ''c-1'' ''B'' granja))
   \<and> cerdos_activos (snd (transferirCerdo env0 ''c-1'' ''B'' granja)) ''A'' = []
   \<and> peso_promedio (snd (transferirCerdo env0 ''c-1'' ''B'' granja)) ''A'' = Some (Fin 20)
   \<and> isOK (fst (cambiarEstado env0 ''c-1'' MUERTO None granja))
   \<and> cerdos_activos (snd (cambiarEstado env0 ''c-1'' MUERTO None granja)) ''A'' = []
   \<and> peso_promedio (snd (cambiarEstado env0 ''c-1'' MUERTO None granja)) ''A'' = Some (Fin 20)"
  by code_simp

section \<open>Updating a pen\<close>














section \<open>Reading the change log back\<close>

subsection \<open>The matcher\<close>

text \<open>
  A repetition that matches has handed some split of the input to its continuation. A
  greedy repetition takes the split at \<open>xs\<close> when the continuation accepts it and refuses
  every longer one; a lazy repetition takes it when the continuation accepts it and
  refuses every shorter one.
\<close>

lemma rep_greedy_Some_split:
  "rep_greedy P k acc s = Some r \<Longrightarrow> \<exists>u v. s = u @ v \<and> k (acc @ u) v = Some r"
proof (induction s arbitrary: acc)
  case Nil
  then show ?case by simp
next
  case (Cons c cs)
  show ?case
  proof (cases "P c \<and> rep_greedy P k (acc @ [c]) cs \<noteq> None")
    case True
    then have "rep_greedy P k (acc @ [c]) cs = Some r"
      using Cons.prems by (auto split: option.splits)
    from Cons.IH [OF this] obtain u v where "cs = u @ v" "k ((acc @ [c]) @ u) v = Some r"
      by blast
    then have "c # cs = (c # u) @ v \<and> k (acc @ (c # u)) v = Some r" by simp
    then show ?thesis by blast
  next
    case False
    then have "k acc (c # cs) = Some r"
      using Cons.prems by (auto split: option.splits if_splits)
    then have "c # cs = [] @ (c # cs) \<and> k (acc @ []) (c # cs) = Some r" by simp
    then show ?thesis by blast
  qed
qed

lemma rep_greedy_no_longer:
  assumes "\<And>u v. s = u @ v \<Longrightarrow> u \<noteq> [] \<Longrightarrow> k (acc @ u) v = None"
  shows "rep_greedy P k acc s = k acc s"
  using assms
proof (induction s arbitrary: acc)
  case Nil
  then show ?case by simp
next
  case (Cons c cs)
  have "rep_greedy P k (acc @ [c]) cs = k (acc @ [c]) cs"
  proof (rule Cons.IH)
    fix u v assume "cs = u @ v" "u \<noteq> []"
    then show "k ((acc @ [c]) @ u) v = None"
      using Cons.prems [of "c # u" v] by simp
  qed
  moreover have "k (acc @ [c]) cs = None"
    using Cons.prems [of "[c]" cs] by simp
  ultimately show ?case by simp
qed

lemma rep_greedy_longest:
  assumes "\<forall>c\<in>set xs. P c" and "k (acc @ xs) ys = Some r"
    and "\<And>u v. ys = u @ v \<Longrightarrow> u \<noteq> [] \<Longrightarrow> k (acc @ xs @ u) v = None"
  shows "rep_greedy P k acc (xs @ ys) = Some r"
  using assms
proof (induction xs arbitrary: acc)
  case Nil
  then show ?case using rep_greedy_no_longer [of ys k acc P] by simp
next
  case (Cons x xs)
  have "rep_greedy P k (acc @ [x]) (xs @ ys) = Some r"
    using Cons.prems by (intro Cons.IH) simp_all
  then show ?case using Cons.prems(1) by simp
qed

lemma rep_lazy_shortest:
  assumes "\<forall>c\<in>set xs. P c" and "k (acc @ xs) ys = Some r"
    and "\<And>u w. xs = u @ w \<Longrightarrow> w \<noteq> [] \<Longrightarrow> k (acc @ u) (w @ ys) = None"
  shows "rep_lazy P k acc (xs @ ys) = Some r"
  using assms
proof (induction xs arbitrary: acc)
  case Nil
  then show ?case by (cases ys) simp_all
next
  case (Cons x xs)
  have 0: "k acc (x # xs @ ys) = None"
    using Cons.prems(3) [of "[]" "x # xs"] by simp
  have "rep_lazy P k (acc @ [x]) (xs @ ys) = Some r"
  proof (rule Cons.IH)
    show "\<forall>c\<in>set xs. P c" using Cons.prems(1) by simp
    show "k ((acc @ [x]) @ xs) ys = Some r" using Cons.prems(2) by simp
    fix u w assume "xs = u @ w" "w \<noteq> []"
    then show "k ((acc @ [x]) @ u) (w @ ys) = None"
      using Cons.prems(3) [of "x # u" w] by simp
  qed
  then show ?case using Cons.prems(1) 0 by simp
qed

lemma plus_greedy_longest:
  assumes "xs \<noteq> []" and "\<forall>c\<in>set xs. P c" and "k xs ys = Some r"
    and "\<And>u v. ys = u @ v \<Longrightarrow> u \<noteq> [] \<Longrightarrow> k (xs @ u) v = None"
  shows "plus_greedy P k (xs @ ys) = Some r"
proof -
  obtain x xs' where x: "xs = x # xs'" using assms(1) by (cases xs) auto
  have "rep_greedy P k [x] (xs' @ ys) = Some r"
    using assms x by (intro rep_greedy_longest) simp_all
  then show ?thesis using assms(2) x by (simp add: plus_greedy_def)
qed

lemma plus_greedy_Some_split:
  assumes "plus_greedy P k s = Some r"
  shows "\<exists>u v. s = u @ v \<and> u \<noteq> [] \<and> k u v = Some r"
proof -
  obtain c cs where s: "s = c # cs" and r: "rep_greedy P k [c] cs = Some r"
    using assms by (auto simp: plus_greedy_def split: list.splits if_splits)
  from rep_greedy_Some_split [OF r] obtain u v where "cs = u @ v" "k ([c] @ u) v = Some r"
    by blast
  then have "s = (c # u) @ v \<and> c # u \<noteq> [] \<and> k (c # u) v = Some r" using s by simp
  then show ?thesis by blast
qed

lemma plus_lazy_shortest:
  assumes "xs \<noteq> []" and "\<forall>c\<in>set xs. P c" and "k xs ys = Some r"
    and "\<And>u w. xs = u @ w \<Longrightarrow> u \<noteq> [] \<Longrightarrow> w \<noteq> [] \<Longrightarrow> k u (w @ ys) = None"
  shows "plus_lazy P k (xs @ ys) = Some r"
proof -
  obtain x xs' where x: "xs = x # xs'" using assms(1) by (cases xs) auto
  have "rep_lazy P k [x] (xs' @ ys) = Some r"
  proof (rule rep_lazy_shortest)
    show "\<forall>c\<in>set xs'. P c" using assms(2) x by simp
    show "k ([x] @ xs') ys = Some r" using assms(3) x by simp
    fix u w assume "xs' = u @ w" "w \<noteq> []"
    then show "k ([x] @ u) (w @ ys) = None"
      using assms(4) [of "x # u" w] x by simp
  qed
  then show ?thesis using assms(2) x by (simp add: plus_lazy_def)
qed

lemma lit_append [simp]: "lit p k (p @ s) = k s"
  by (simp add: lit_def)

lemma lit_Some: "lit p k s = Some r \<Longrightarrow> \<exists>s'. s = p @ s' \<and> k s' = Some r"
  by (auto simp: lit_def prefix_def split: if_splits)

lemma lit_no_prefix: "\<not> prefix p s \<Longrightarrow> lit p k s = None"
  by (simp add: lit_def)

lemma alt_tipo_str: "alt_tipo k (TipoCambio_str t @ s) = (case k t s of Some r \<Rightarrow> Some r | None \<Rightarrow> None)"
  by (cases t) (simp_all add: alt_tipo_def TipoCambio_str_def lit_def split: option.splits)

lemma alt_tipo_Some:
  "alt_tipo k s = Some r \<Longrightarrow> \<exists>t s'. s = TipoCambio_str t @ s' \<and> k t s' = Some r"
  unfolding alt_tipo_def
  by (auto split: option.splits dest!: lit_Some intro: exI [of _ PESO] exI [of _ ESTADO] exI [of _ CORRAL]
      simp: TipoCambio_str_def)

subsection \<open>The line of a change\<close>

text \<open>
  The end of the line: the new value, then nothing or the note in parentheses. The lazy
  fourth group stops at the end of a simple value, since inside the value neither white
  space nor \<open>(\<close> lets the optional group start.
\<close>

lemma opt_nota_empty: "opt_nota k [] = k None []"
  by (simp add: opt_nota_def lit_def)

lemma opt_nota_nota:
  assumes "\<forall>c\<in>set obs. punto c"
  shows "opt_nota (\<lambda>m5. fin (f m5)) ('' ('' @ obs @ '')'') = Some (f (Some obs))"
proof -
  have "rep_greedy punto (\<lambda>m5. lit '')'' (fin (f (Some m5)))) [] (obs @ '')'') = Some (f (Some obs))"
  proof (rule rep_greedy_longest)
    show "\<forall>c\<in>set obs. punto c" by (rule assms)
    show "lit '')'' (fin (f (Some ([] @ obs)))) '')'' = Some (f (Some obs))"
      by (simp add: lit_def fin_def)
    fix u v :: string assume "'')'' = u @ v" "u \<noteq> []"
    then have "v = []" by (cases u) auto
    then show "lit '')'' (fin (f (Some ([] @ obs @ u)))) v = None"
      by (simp add: lit_def)
  qed
  then show ?thesis
    by (simp add: opt_nota_def espacio_def lit_def)
qed

lemma opt_nota_no_nota:
  assumes "\<not> espacio c" and "c \<noteq> CHR ''(''"
  shows "opt_nota (\<lambda>m5. fin (f m5)) (c # cs) = None"
  using assms by (simp add: opt_nota_def lit_def fin_def)

lemma opt_nota_sufijo:
  assumes "nota_legible nota"
  shows "opt_nota (\<lambda>m5. fin (f m5)) (sufijo_nota nota) = Some (f (nota_leida nota))"
proof (cases "truthy nota")
  case True
  then obtain obs where "nota = Some obs" "obs \<noteq> []"
    by (auto simp: truthy_def split: option.splits)
  then show ?thesis
    using assms opt_nota_nota [of obs f]
    by (simp add: sufijo_nota_def nota_leida_def nota_legible_def truthy_def)
next
  case False
  then have "sufijo_nota nota = []" "nota_leida nota = None"
    by (auto simp: sufijo_nota_def nota_leida_def truthy_def split: option.splits)
  then show ?thesis by (simp add: opt_nota_empty fin_def)
qed

lemma nivel4:
  assumes n: "texto_simple n" and o: "nota_legible nota"
  shows "plus_lazy punto (\<lambda>m4. opt_nota (\<lambda>m5. fin (f m4 m5))) (n @ sufijo_nota nota)
           = Some (f n (nota_leida nota))"
proof (rule plus_lazy_shortest)
  show "n \<noteq> []" using n by (simp add: texto_simple_def)
  show "\<forall>c\<in>set n. punto c" using n by (auto simp: texto_simple_def punto_def espacio_def)
  show "opt_nota (\<lambda>m5. fin (f n m5)) (sufijo_nota nota) = Some (f n (nota_leida nota))"
    using o by (rule opt_nota_sufijo)
  fix u w assume uw: "n = u @ w" "u \<noteq> []" "w \<noteq> []"
  then obtain c cs where w: "w = c # cs" by (cases w) auto
  then have "\<not> espacio c \<and> c \<noteq> CHR ''(''" using n uw by (auto simp: texto_simple_def)
  then show "opt_nota (\<lambda>m5. fin (f u m5)) (w @ sufijo_nota nota) = None"
    using w by (simp add: opt_nota_no_nota)
qed

text \<open>
  In the line of a legible change the arrow \<open> -> \<close> starts at one place only, and no
  text that begins like \<open> - PESO: \<close> and reaches the arrow starts after the date. So
  the greedy first and third groups cannot be longer than the date and the old value.
\<close>

lemma suffix_append_cases:
  assumes "suffix v (xs @ ys)"
  obtains "suffix v ys" | w where "suffix w xs" "v = w @ ys" "w \<noteq> []"
proof -
  from assms have "suffix v ys \<or> (\<exists>w. suffix w xs \<and> v = w @ ys)"
    by (auto simp add: suffix_append)
  then show thesis
  proof
    assume "suffix v ys" then show thesis by (rule that(1))
  next
    assume "\<exists>w. suffix w xs \<and> v = w @ ys"
    then obtain w where w: "suffix w xs" "v = w @ ys" by blast
    show thesis
    proof (cases "w = []")
      case True
      then have "suffix v ys" using w by simp
      then show thesis by (rule that(1))
    next
      case False
      then show thesis using w that(2) by blast
    qed
  qed
qed

lemma prefix_flecha_mem: "prefix '' -> '' v \<Longrightarrow> CHR ''>'' \<in> set v"
  by (auto simp: prefix_def)

lemma flecha_en_nota:
  assumes o: "nota_legible nota" and s: "suffix v (sufijo_nota nota)" and p: "prefix '' -> '' v"
  shows False
proof (cases "truthy nota")
  case False
  then have "sufijo_nota nota = []"
    by (auto simp: sufijo_nota_def truthy_def split: option.splits)
  then show False using s p by simp
next
  case True
  then obtain obs where obs: "nota = Some obs" "obs \<noteq> []"
    by (auto simp: truthy_def split: option.splits)
  then have S: "sufijo_nota nota = CHR '' '' # CHR ''('' # obs @ '')''"
    by (simp add: sufijo_nota_def)
  have no: "\<not> sublist '' -> '' obs"
    using o obs by (simp add: nota_legible_def)
  from s S have "v = CHR '' '' # CHR ''('' # obs @ '')'' \<or> v = CHR ''('' # obs @ '')''
                  \<or> suffix v (obs @ '')'')"
    by (simp add: suffix_Cons)
  then show False
  proof (elim disjE)
    assume "suffix v (obs @ '')'')"
    then obtain pre where pre: "obs @ '')'' = pre @ v" by (auto simp: suffix_def)
    from p obtain rest where v: "v = '' -> '' @ rest" by (auto simp: prefix_def)
    show False
    proof (cases rest rule: rev_cases)
      case Nil
      then have "obs @ '')'' = (pre @ '' ->'') @ '' ''" using pre v by simp
      then show False by (simp only: append1_eq_conv) simp
    next
      case (snoc ys y)
      then have "obs @ '')'' = (pre @ '' -> '' @ ys) @ [y]" using pre v by simp
      then have "obs = pre @ '' -> '' @ ys" by (simp only: append1_eq_conv)
      then have "sublist '' -> '' obs" by (metis sublist_appendI)
      then show False using no by simp
    qed
  qed (use p in auto)
qed

lemma flecha_unica:
  assumes n: "texto_simple n" and o: "nota_legible nota"
    and s: "suffix v ('' -> '' @ n @ sufijo_nota nota)" and p: "prefix '' -> '' v"
  shows "v = '' -> '' @ n @ sufijo_nota nota"
proof -
  obtain c cs where ncs: "n = c # cs" using n by (cases n) (auto simp: texto_simple_def)
  have nn: "CHR '' '' \<notin> set n" "CHR ''>'' \<notin> set n"
    using n by (auto simp: texto_simple_def espacio_def)
  from s have "v = '' -> '' @ n @ sufijo_nota nota
      \<or> v = ''-> '' @ n @ sufijo_nota nota
      \<or> v = ''> '' @ n @ sufijo_nota nota
      \<or> v = '' '' @ n @ sufijo_nota nota
      \<or> suffix v (n @ sufijo_nota nota)"
    by (simp add: suffix_Cons)
  then show ?thesis
  proof (elim disjE)
    assume v: "v = '' '' @ n @ sufijo_nota nota"
    show ?thesis
    proof (cases cs)
      case Nil
      then show ?thesis using p v ncs nn
        by (cases "sufijo_nota nota") (auto simp: sufijo_nota_def split: option.splits if_splits)
    next
      case (Cons d ds)
      then show ?thesis using p v ncs nn by auto
    qed
  next
    assume "suffix v (n @ sufijo_nota nota)"
    then show ?thesis
    proof (cases rule: suffix_append_cases)
      case 1
      then show ?thesis using flecha_en_nota [OF o _ p] by blast
    next
      case (2 w)
      then obtain e es where "w = e # es" by (cases w) auto
      moreover have "set w \<subseteq> set n" using 2(1) by (rule set_mono_suffix)
      ultimately show ?thesis using p 2(2) nn by auto
    qed
  qed (use p in auto)
qed

lemma flecha_unica_linea:
  assumes a: "texto_simple a" and n: "texto_simple n" and o: "nota_legible nota"
    and s: "suffix v ('' - '' @ TipoCambio_str t @ '': '' @ a @ '' -> '' @ n @ sufijo_nota nota)"
    and p: "prefix '' -> '' v"
  shows "v = '' -> '' @ n @ sufijo_nota nota"
proof -
  let ?p1 = "'' - '' @ TipoCambio_str t @ '': '' @ a"
  have no: "CHR ''>'' \<notin> set ?p1"
    using a by (cases t) (auto simp: texto_simple_def TipoCambio_str_def)
  from s have "suffix v (?p1 @ '' -> '' @ n @ sufijo_nota nota)" by simp
  then show ?thesis
  proof (cases rule: suffix_append_cases)
    case 1
    then show ?thesis using flecha_unica [OF n o _ p] by blast
  next
    case (2 w)
    have sub: "set w \<subseteq> set ?p1" using 2(1) by (rule set_mono_suffix)
    obtain c1 w1 where w: "w = c1 # w1" using 2(3) by (cases w) auto
    show ?thesis
    proof (cases w1)
      case Nil
      then show ?thesis using p 2(2) w by auto
    next
      case (Cons c2 w2)
      show ?thesis
      proof (cases w2)
        case Nil
        then show ?thesis using p 2(2) w Cons by auto
      next
        case (Cons c3 w3)
        then have "c3 \<in> set ?p1" using sub w \<open>w1 = c2 # w2\<close> by auto
        moreover have "c3 = CHR ''>''" using p 2(2) w \<open>w1 = c2 # w2\<close> Cons by auto
        ultimately show ?thesis using no by blast
      qed
    qed
  qed
qed

lemma no_cabecera_posterior:
  assumes a: "texto_simple a" and g: "g \<noteq> []" and u: "u \<noteq> []"
    and eq: "u @ '' - '' @ TipoCambio_str x @ '': '' @ g = '' - '' @ TipoCambio_str t @ '': '' @ a"
  shows False
proof -
  let ?R = "'' - '' @ TipoCambio_str x @ '': '' @ g"
  have sp: "CHR '' '' \<notin> set a" using a by (auto simp: texto_simple_def espacio_def)
  have suf: "suffix ?R ('' - '' @ TipoCambio_str t @ '': '' @ a)"
    using eq by (metis suffixI)
  have ne: "?R \<noteq> '' - '' @ TipoCambio_str t @ '': '' @ a"
    using eq u by (metis append_self_conv2)
  have in_a: "suffix ?R a \<Longrightarrow> False"
  proof -
    assume "suffix ?R a"
    then have "set ?R \<subseteq> set a" by (rule set_mono_suffix)
    then show False using sp by auto
  qed
  show False
    using suf ne sp in_a
    by (cases t; cases x) (auto simp: TipoCambio_str_def suffix_Cons)
qed

lemma linea_cambio_sufijo:
  "linea_cambio env cambio =
     fecha cambio @ '' - '' @ TipoCambio_str (tipo cambio) @ '': ''
       @ String_valor env (valorAnterior cambio) @ '' -> '' @ String_valor env (valorNuevo cambio)
       @ sufijo_nota (cambio_observaciones cambio)"
  by (simp add: linea_cambio_def sufijo_nota_def)

lemma nivel3:
  assumes a: "texto_simple a" and n: "texto_simple n" and o: "nota_legible nota"
  shows "plus_greedy punto (\<lambda>m3. lit '' -> '' (plus_lazy punto (\<lambda>m4. opt_nota (\<lambda>m5. fin (f m3 m4 m5)))))
           (a @ '' -> '' @ n @ sufijo_nota nota) = Some (f a n (nota_leida nota))"
proof (rule plus_greedy_longest)
  show "a \<noteq> []" using a by (simp add: texto_simple_def)
  show "\<forall>c\<in>set a. punto c" using a by (auto simp: texto_simple_def punto_def espacio_def)
  show "lit '' -> '' (plus_lazy punto (\<lambda>m4. opt_nota (\<lambda>m5. fin (f a m4 m5))))
          ('' -> '' @ n @ sufijo_nota nota) = Some (f a n (nota_leida nota))"
    using nivel4 [OF n o, of "f a"] by (simp only: lit_append)
  fix u v assume uv: "'' -> '' @ n @ sufijo_nota nota = u @ v" "u \<noteq> []"
  have "\<not> prefix '' -> '' v"
  proof
    assume p: "prefix '' -> '' v"
    have "suffix v ('' -> '' @ n @ sufijo_nota nota)" using uv(1) by (metis suffixI)
    from flecha_unica [OF n o this p] uv show False by (metis append_self_conv2)
  qed
  then show "lit '' -> '' (plus_lazy punto (\<lambda>m4. opt_nota (\<lambda>m5. fin (f (a @ u) m4 m5)))) v = None"
    by (rule lit_no_prefix)
qed

lemma match_linea_cambio:
  assumes leg: "cambio_legible env cambio"
  shows "match_linea (linea_cambio env cambio)
           = Some (fecha cambio, tipo cambio, String_valor env (valorAnterior cambio),
                   String_valor env (valorNuevo cambio), nota_leida (cambio_observaciones cambio))"
proof -
  let ?a = "String_valor env (valorAnterior cambio)"
  let ?n = "String_valor env (valorNuevo cambio)"
  let ?nota = "cambio_observaciones cambio"
  let ?k3 = "\<lambda>m1 m2 m3. lit '' -> '' (plus_lazy punto (\<lambda>m4. opt_nota (\<lambda>m5. fin (m1, m2, m3, m4, m5))))"
  let ?k1 = "\<lambda>m1. lit '' - '' (alt_tipo (\<lambda>m2. lit '': '' (plus_greedy punto (?k3 m1 m2))))"
  let ?W = "'' - '' @ TipoCambio_str (tipo cambio) @ '': '' @ ?a @ '' -> '' @ ?n @ sufijo_nota ?nota"
  have a: "texto_simple ?a" and n: "texto_simple ?n" and o: "nota_legible ?nota"
    and f: "fecha cambio \<noteq> []" "\<forall>c\<in>set (fecha cambio). punto c"
    using leg by (simp_all add: cambio_legible_def)
  have here: "?k1 (fecha cambio) ?W
                = Some (fecha cambio, tipo cambio, ?a, ?n, nota_leida ?nota)"
    using nivel3 [OF a n o, of "\<lambda>m3 m4 m5. (fecha cambio, tipo cambio, m3, m4, m5)"]
    by (simp only: lit_append alt_tipo_str) simp
  have later: "?k1 (fecha cambio @ u) v = None" if uv: "?W = u @ v" "u \<noteq> []" for u v
  proof (rule ccontr)
    assume "?k1 (fecha cambio @ u) v \<noteq> None"
    then obtain r where r: "?k1 (fecha cambio @ u) v = Some r" by blast
    from lit_Some [OF r] obtain s1 where s1: "v = '' - '' @ s1"
      and r1: "alt_tipo (\<lambda>m2. lit '': '' (plus_greedy punto (?k3 (fecha cambio @ u) m2))) s1 = Some r"
      by blast
    from alt_tipo_Some [OF r1] obtain x s2 where s2: "s1 = TipoCambio_str x @ s2"
      and r2: "lit '': '' (plus_greedy punto (?k3 (fecha cambio @ u) x)) s2 = Some r"
      by blast
    from lit_Some [OF r2] obtain s3 where s3: "s2 = '': '' @ s3"
      and r3: "plus_greedy punto (?k3 (fecha cambio @ u) x) s3 = Some r"
      by blast
    from plus_greedy_Some_split [OF r3] obtain g v' where g: "s3 = g @ v'" "g \<noteq> []"
      and r4: "?k3 (fecha cambio @ u) x g v' = Some r"
      by blast
    from lit_Some [OF r4] have p: "prefix '' -> '' v'" by (auto simp: prefix_def)
    have v: "v = '' - '' @ TipoCambio_str x @ '': '' @ g @ v'"
      using s1 s2 s3 g by simp
    have "?W = (u @ '' - '' @ TipoCambio_str x @ '': '' @ g) @ v'"
      using uv(1) v by simp
    then have "suffix v' ?W" by (metis suffixI)
    from flecha_unica_linea [OF a n o this p] have v': "v' = '' -> '' @ ?n @ sufijo_nota ?nota" .
    have "u @ '' - '' @ TipoCambio_str x @ '': '' @ g
            = '' - '' @ TipoCambio_str (tipo cambio) @ '': '' @ ?a"
      using uv(1) v v' by simp
    from no_cabecera_posterior [OF a g(2) uv(2) this] show False .
  qed
  have "plus_greedy punto ?k1 (fecha cambio @ ?W)
          = Some (fecha cambio, tipo cambio, ?a, ?n, nota_leida ?nota)"
    using f here later by (intro plus_greedy_longest) 
  then show ?thesis
    by (simp add: match_linea_def linea_cambio_sufijo)
qed

subsection \<open>The history\<close>

text \<open>
  The line of a legible change has no line feed, so appending it adds one line to the
  notes, and reading adds one record to the history.
\<close>

lemma split_lineas_not_Nil: "split_lineas s \<noteq> []"
  by (induction s) (auto split: list.splits)

lemma split_lineas_append:
  "split_lineas (xs @ CHR 0x0A # ys) = split_lineas xs @ split_lineas ys"
proof (induction xs)
  case Nil
  then show ?case by simp
next
  case (Cons x xs)
  then show ?case
    using split_lineas_not_Nil [of xs] by (cases "split_lineas xs") auto
qed

lemma split_lineas_single: "CHR 0x0A \<notin> set s \<Longrightarrow> split_lineas s = [s]"
  by (induction s) auto

lemma lineas_historial_append:
  "lineas_historial (xs @ ys) = lineas_historial xs @ lineas_historial ys"
  by (induction xs) (auto split: option.splits)

lemma texto_simple_no_lf: "texto_simple s \<Longrightarrow> CHR 0x0A \<notin> set s"
  unfolding texto_simple_def espacio_def by blast

lemma sufijo_nota_no_lf: "nota_legible nota \<Longrightarrow> CHR 0x0A \<notin> set (sufijo_nota nota)"
  by (cases nota) (auto simp: nota_legible_def sufijo_nota_def punto_def)

lemma TipoCambio_str_no_lf: "CHR 0x0A \<notin> set (TipoCambio_str t)"
  by (cases t) (simp_all add: TipoCambio_str_def)

lemma linea_cambio_una_linea:
  assumes "cambio_legible env cambio"
  shows "linea_cambio env cambio \<noteq> []" and "CHR 0x0A \<notin> set (linea_cambio env cambio)"
proof -
  have f: "fecha cambio \<noteq> []" "\<forall>c\<in>set (fecha cambio). punto c"
    and a: "texto_simple (String_valor env (valorAnterior cambio))"
    and n: "texto_simple (String_valor env (valorNuevo cambio))"
    and o: "nota_legible (cambio_observaciones cambio)"
    using assms by (simp_all add: cambio_legible_def)
  show "linea_cambio env cambio \<noteq> []"
    using f(1) by (simp add: linea_cambio_sufijo)
  have "CHR 0x0A \<notin> set (fecha cambio)"
    using f(2) unfolding punto_def by blast
  then show "CHR 0x0A \<notin> set (linea_cambio env cambio)"
    using texto_simple_no_lf [OF a] texto_simple_no_lf [OF n] sufijo_nota_no_lf [OF o]
      TipoCambio_str_no_lf [of "tipo cambio"]
    by (simp add: linea_cambio_sufijo)
qed

lemma lineas_historial_linea_cambio:
  assumes "cambio_legible env cambio"
  shows "lineas_historial [linea_cambio env cambio] = [cambio_leido env cambio]"
  using match_linea_cambio [OF assms] by (simp add: cambio_leido_def)

lemma historial_registrarCambio:
  assumes "cambio_legible env cambio"
  shows "historial_cerdo (fst (registrarCambio env cerdo cambio db))
           = historial_cerdo cerdo @ [cambio_leido env cambio]"
proof (cases "truthy (observaciones cerdo)")
  case True
  then obtain old where old: "observaciones cerdo = Some old" "old \<noteq> []"
    by (auto simp: truthy_def split: option.splits)
  then show ?thesis
    using linea_cambio_una_linea [OF assms] lineas_historial_linea_cambio [OF assms]
    by (simp add: registrarCambio_def Let_def historial_cerdo_def split_lineas_append
        split_lineas_single lineas_historial_append)
next
  case False
  then have "historial_cerdo cerdo = []"
    by (auto simp: truthy_def historial_cerdo_def split: option.splits)
  moreover have "observaciones (fst (registrarCambio env cerdo cambio db))
                   = Some (linea_cambio env cambio)"
    using False by (auto simp: registrarCambio_def Let_def truthy_def split: option.splits)
  ultimately show ?thesis
    using linea_cambio_una_linea [OF assms] lineas_historial_linea_cambio [OF assms]
    by (simp add: historial_cerdo_def split_lineas_single)
qed

lemma registrarCambio_row:
  assumes "Cerdo_findByPk db i = Some cerdo"
  shows "Cerdo_findByPk (snd (registrarCambio env cerdo cambio db)) i
           = Some (fst (registrarCambio env cerdo cambio db))"
  using assms Cerdo_findByPk_id [OF assms]
  by (simp add: registrarCambio_def Let_def Cerdo_findByPk_save)

lemma registrarCambios_historial:
  assumes "Cerdo_findByPk db i = Some cerdo"
    and "\<forall>cambio\<in>set cambios. cambio_legible env cambio"
  shows "Cerdo_findByPk (snd (registrarCambios env cerdo cambios db)) i
           = Some (fst (registrarCambios env cerdo cambios db))
         \<and> historial_cerdo (fst (registrarCambios env cerdo cambios db))
           = historial_cerdo cerdo @ map (cambio_leido env) cambios"
  using assms
proof (induction cambios arbitrary: cerdo db)
  case Nil
  then show ?case by simp
next
  case (Cons cambio cambios)
  obtain cerdo' db' where r: "registrarCambio env cerdo cambio db = (cerdo', db')"
    by (cases "registrarCambio env cerdo cambio db")
  have 1: "Cerdo_findByPk db' i = Some cerdo'"
    using registrarCambio_row [OF Cons.prems(1), of env cambio] r by simp
  have 2: "historial_cerdo cerdo' = historial_cerdo cerdo @ [cambio_leido env cambio]"
    using historial_registrarCambio [of env cambio cerdo db] Cons.prems(2) r by simp
  have 3: "\<forall>cambio\<in>set cambios. cambio_legible env cambio"
    using Cons.prems(2) by simp
  from Cons.IH [OF 1 3] show ?case by (simp add: r 2)
qed

text \<open>
  C9, as the code has it. Let a pig be stored under a key and let changes be appended to
  its notes by \<open>registrarCambio\<close>, one after the other. If every change is legible (a date
  without line break, both values simple, a note without line break and without \<open> -> \<close>),
  then \<open>obtenerHistorial\<close> returns the history the pig had before, followed by one
  record per appended change, in the order of appending, each with the kind, the date,
  the two values as text and the note of the change.
\<close>

theorem obtenerHistorial_roundtrip:
  assumes "Cerdo_findByPk db i = Some cerdo"
    and "\<forall>cambio\<in>set cambios. cambio_legible env cambio"
  shows "obtenerHistorial db i = Inr (historial_cerdo cerdo)
       \<and> obtenerHistorial (snd (registrarCambios env cerdo cambios db)) i
           = Inr (historial_cerdo cerdo @ map (cambio_leido env) cambios)"
  using assms(1) registrarCambios_historial [OF assms]
  by (simp add: obtenerHistorial_def)

text \<open>
  The same for a committed operation: after \<open>cambiarEstado\<close> with a legible note, the
  history of the pig is the one before followed by the record of the change.
\<close>

lemma EstadoCerdo_str_simple: "texto_simple (EstadoCerdo_str e)"
  by (cases e) (simp_all add: EstadoCerdo_str_def texto_simple_def espacio_def)

lemma historial_cerdo_estado [simp]:
  "historial_cerdo (cerdo\<lparr>estado := e\<rparr>) = historial_cerdo cerdo"
  by (simp add: historial_cerdo_def)

lemma cambiarEstado_historial:
  assumes c: "Cerdo_findByPk db i = Some cerdo"
    and now: "env_now env \<noteq> []" "\<forall>c\<in>set (env_now env). punto c"
    and nota: "nota_legible observacion"
  shows "obtenerHistorial (snd (cambiarEstado env i nuevoEstado observacion db)) i
           = Inr (historial_cerdo cerdo
                  @ [\<lparr>fecha = env_now env, tipo = ESTADO,
                      valorAnterior = Texto (EstadoCerdo_str (estado cerdo)),
                      valorNuevo = Texto (EstadoCerdo_str nuevoEstado),
                      cambio_observaciones = nota_leida observacion\<rparr>])"
proof -
  let ?cambio = "\<lparr>fecha = env_now env, tipo = ESTADO,
                  valorAnterior = Texto (EstadoCerdo_str (estado cerdo)),
                  valorNuevo = Texto (EstadoCerdo_str nuevoEstado),
                  cambio_observaciones = observacion\<rparr>"
  have leg: "cambio_legible env ?cambio"
    using now nota by (simp add: cambio_legible_def String_valor_def EstadoCerdo_str_simple)
  have i: "Cerdo_id cerdo = i" using c by (rule Cerdo_findByPk_id)
  have c': "Cerdo_findByPk (Lote_decrement l 1 (Corral_decrement k 1 db)) i = Some cerdo" for l k
    using c by (simp add: Cerdo_findByPk_def Lote_decrement_def Corral_decrement_def)
  have h: "historial_cerdo (fst (registrarCambio env cerdo ?cambio db'))
             = historial_cerdo cerdo @ [cambio_leido env ?cambio]" for db'
    using leg by (rule historial_registrarCambio)
  have "Cerdo_findByPk (snd (cambiarEstado env i nuevoEstado observacion db)) i
          = Some ((fst (registrarCambio env cerdo ?cambio db))\<lparr>estado := nuevoEstado\<rparr>)"
    using c i c'
    by (auto simp add: cambiarEstado_sin_fallo
        registrarCambio_def Let_def Cerdo_findByPk_save)
  then show ?thesis
    by (simp add: obtenerHistorial_def h cambio_leido_def String_valor_def)
qed

lemma String_entero_muestras:
  "String_entero (Fin 20) = ''20''" "String_entero (Fin 24) = ''24''"
  by code_simp+

theorem obtenerHistorial_roundtrip_witness:
  "Cerdo_findByPk granja ''c-1'' = Some (cerdo_de ''c-1'' ''T-000001'' ''L1'' ''A'' 20 ACTIVO)
   \<and> obtenerHistorial granja ''c-1'' = Inr []
   \<and> obtenerHistorial (snd (registrarCambios env0
        (cerdo_de ''c-1'' ''T-000001'' ''L1'' ''A'' 20 ACTIVO)
        [\<lparr>fecha = ''2024-03-01T10:00:00.000Z'', tipo = PESO, valorAnterior = Numero (Fin 20),
          valorNuevo = Numero (Fin 24), cambio_observaciones = None\<rparr>,
         \<lparr>fecha = ''2024-03-02T09:30:00.000Z'', tipo = ESTADO, valorAnterior = Texto ''ACTIVO'',
          valorNuevo = Texto ''ENFERMO'', cambio_observaciones = Some ''fiebre alta''\<rparr>]
        granja)) ''c-1''
     = Inr [\<lparr>fecha = ''2024-03-01T10:00:00.000Z'', tipo = PESO, valorAnterior = Texto ''20'',
             valorNuevo = Texto ''24'', cambio_observaciones = None\<rparr>,
            \<lparr>fecha = ''2024-03-02T09:30:00.000Z'', tipo = ESTADO, valorAnterior = Texto ''ACTIVO'',
             valorNuevo = Texto ''ENFERMO'', cambio_observaciones = Some ''fiebre alta''\<rparr>]"
proof -
  have l: "\<forall>cambio\<in>set
        [\<lparr>fecha = ''2024-03-01T10:00:00.000Z'', tipo = PESO, valorAnterior = Numero (Fin 20),
          valorNuevo = Numero (Fin 24), cambio_observaciones = None\<rparr>,
         \<lparr>fecha = ''2024-03-02T09:30:00.000Z'', tipo = ESTADO, valorAnterior = Texto ''ACTIVO'',
          valorNuevo = Texto ''ENFERMO'', cambio_observaciones = Some ''fiebre alta''\<rparr>].
        cambio_legible env0 cambio"
    by code_simp
  have h: "historial_cerdo (cerdo_de ''c-1'' ''T-000001'' ''L1'' ''A'' 20 ACTIVO) = []"
    by (simp add: historial_cerdo_def cerdo_de_def)
  show ?thesis
    using granja_c1 obtenerHistorial_roundtrip [OF granja_c1 l]
    by (simp add: h cambio_leido_def String_valor_def env0_def String_entero_muestras
        nota_leida_def truthy_def)
qed

text \<open>
  C9 as stated fails. \<open>cambiarEstado\<close> commits a change of pig \<open>c-1\<close> from \<open>ACTIVO\<close> to
  \<open>ENFERMO\<close> with the note \<open>fiebre -> reposo\<close>. The history then holds one record whose
  old value is \<open>ACTIVO -> ENFERMO (fiebre\<close>, whose new value is \<open>reposo)\<close> and which has
  no note.
\<close>

theorem obtenerHistorial_roundtrip_counterexample:
  "isOK (fst (cambiarEstado env0 ''c-1'' ENFERMO (Some ''fiebre -> reposo'') granja))
   \<and> obtenerHistorial granja ''c-1'' = Inr []
   \<and> obtenerHistorial (snd (cambiarEstado env0 ''c-1'' ENFERMO (Some ''fiebre -> reposo'') granja))
        ''c-1''
     = Inr [\<lparr>fecha = ''2024-03-01T10:00:00.000Z'', tipo = ESTADO,
             valorAnterior = Texto ''ACTIVO -> ENFERMO (fiebre'',
             valorNuevo = Texto ''reposo)'', cambio_observaciones = None\<rparr>]"
  by code_simp

end
